theory Spec2Isabelle
  imports Complex_Main
begin

section \<open>Python values, exceptions and observable effects\<close>

text \<open>
  The two notebooks \<^verbatim>\<open>LP/LP_final.ipynb\<close> and \<^verbatim>\<open>MIP/MIP_final.ipynb\<close> each define one
  function, \<^verbatim>\<open>lprog\<close> and \<^verbatim>\<open>mip\<close>. Both drive an object of the external CPLEX library
  through a fixed sequence of method calls. The library is not part of the repository, so
  the engine is a parameter of the model: a record holding, for every method the notebooks
  call, the engine's response on an engine state of an arbitrary type \<open>'e\<close>. A response is
  either an exception (\<open>Inl\<close>) or the value the method returns (\<open>Inr\<close>).

  Coefficients are Python floats in the notebooks; they are reals here. The coefficient
  matrix is a list of rows, which need not have equal lengths.
\<close>

datatype exn =
    IndexError
  | CplexError string
  | Exception string string

text \<open>
  \<open>IndexError\<close> is what Python raises for \<^verbatim>\<open>A[0]\<close> on an empty sequence. \<open>CplexError s\<close>
  stands for \<^verbatim>\<open>cplex.exceptions.CplexError\<close> and its subclasses, with the message \<open>s\<close>:
  exactly the exceptions that the clause \<^verbatim>\<open>except CplexError as exc\<close> catches.
  \<open>Exception cls s\<close> is an exception of any other class \<open>cls\<close>.
\<close>

datatype objective_sense = minimize | maximize

datatype call =
    Cplex_new
  | Set_sense objective_sense
  | Variables_add "real list" "real list" "real list" "string option" "string list"
  | Linear_constraints_add "(nat list \<times> real list) list" "string list" "real list"
  | Set_log_stream_None
  | Set_error_stream_None
  | Set_warning_stream_None
  | Set_results_stream_None
  | Solve
  | Write string
  | Get_values
  | Get_objective_value

text \<open>
  An event of a run is a call of an engine method, together with the exception it raised
  if it raised one, or a line printed by Python's \<^verbatim>\<open>print\<close>.
\<close>

datatype event = Engine call "exn option" | Print string

record 'e cplex =
  Cplex :: "exn + 'e"
  objective_set_sense :: "'e \<Rightarrow> objective_sense \<Rightarrow> exn + 'e"
  variables_add ::
    "'e \<Rightarrow> real list \<Rightarrow> real list \<Rightarrow> real list \<Rightarrow> string option \<Rightarrow> string list \<Rightarrow> exn + 'e"
  linear_constraints_add ::
    "'e \<Rightarrow> (nat list \<times> real list) list \<Rightarrow> string list \<Rightarrow> real list \<Rightarrow> exn + 'e"
  set_log_stream :: "'e \<Rightarrow> exn + 'e"
  set_error_stream :: "'e \<Rightarrow> exn + 'e"
  set_warning_stream :: "'e \<Rightarrow> exn + 'e"
  set_results_stream :: "'e \<Rightarrow> exn + 'e"
  solve :: "'e \<Rightarrow> exn + 'e"
  write_file :: "'e \<Rightarrow> string \<Rightarrow> exn + 'e"
  solution_get_values :: "'e \<Rightarrow> exn + real list"
  solution_get_objective_value :: "'e \<Rightarrow> exn + real"

text \<open>
  A run is the outcome of a piece of Python (an exception or a value) and the events it
  produced, oldest first.
\<close>

type_synonym 'a run = "(exn + 'a) \<times> event list"

definition returns :: "'a \<Rightarrow> 'a run" where
  "returns a = (Inr a, [])"

definition raises :: "exn \<Rightarrow> 'a run" where
  "raises x = (Inl x, [])"

text \<open>Sequencing: an exception ends the run, and what follows is not executed.\<close>

definition and_then :: "'a run \<Rightarrow> ('a \<Rightarrow> 'b run) \<Rightarrow> 'b run" where
  "and_then m f =
     (case m of
        (Inl x, t) \<Rightarrow> (Inl x, t)
      | (Inr a, t) \<Rightarrow> (case f a of (r, t') \<Rightarrow> (r, t @ t')))"

definition engine_call :: "call \<Rightarrow> exn + 'a \<Rightarrow> 'a run" where
  "engine_call c r =
     (case r of
        Inl x \<Rightarrow> (Inl x, [Engine c (Some x)])
      | Inr a \<Rightarrow> (Inr a, [Engine c None]))"

definition print :: "string \<Rightarrow> unit run" where
  "print s = (Inr (), [Print s])"

text \<open>
  \<^verbatim>\<open>try: m except CplexError as exc: h(exc)\<close>. Only \<open>CplexError\<close> is handled; every other
  exception leaves the statement as it is.
\<close>

fun try_except_CplexError :: "'a run \<Rightarrow> (string \<Rightarrow> 'a run) \<Rightarrow> 'a run" where
  "try_except_CplexError (Inl (CplexError s), t) h = (case h s of (r, t') \<Rightarrow> (r, t @ t'))"
| "try_except_CplexError (Inl IndexError, t) h = (Inl IndexError, t)"
| "try_except_CplexError (Inl (Exception cls s), t) h = (Inl (Exception cls s), t)"
| "try_except_CplexError (Inr a, t) h = (Inr a, t)"

text \<open>Python's \<^verbatim>\<open>str\<close> on a non-negative integer.\<close>

fun str :: "nat \<Rightarrow> string" where
  "str n = (if n < 10 then [''0123456789'' ! n] else str (n div 10) @ [''0123456789'' ! (n mod 10)])"

declare str.simps [simp del]

text \<open>
  \<^verbatim>\<open>noRow, noCol = len(A), len(A[0])\<close>: the subscript raises \<open>IndexError\<close> when \<open>A\<close> has
  no row.
\<close>

definition dims :: "real list list \<Rightarrow> (nat \<times> nat) run" where
  "dims A = (case A of [] \<Rightarrow> raises IndexError | row0 # _ \<Rightarrow> returns (length A, length row0))"

text \<open>
  The two list comprehensions of the bodies. \<^verbatim>\<open>["x"+str(i) for i in range(noCol)]\<close> names the
  variables. \<^verbatim>\<open>[[[i for i in range(noCol)], A[j]] for j in range(noRow)]\<close> turns the dense
  matrix into the engine's sparse rows: each row is the list of column indices and, beside
  it, the row of \<open>A\<close> as it is. The subscript \<^verbatim>\<open>A[j]\<close> stays in range, since \<open>noRow\<close> is the
  length of \<open>A\<close>.
\<close>

definition colnames :: "nat \<Rightarrow> string list" where
  "colnames noCol = map (\<lambda>i. ''x'' @ str i) [0..<noCol]"

definition sparse_rows :: "real list list \<Rightarrow> nat \<Rightarrow> nat \<Rightarrow> (nat list \<times> real list) list" where
  "sparse_rows A noRow noCol = map (\<lambda>j. ([0..<noCol], A ! j)) [0..<noRow]"

section \<open>The linear-programming facade\<close>

text \<open>
  \<^verbatim>\<open>def lprog(A, b, c, u, l, saveOpt, quietOpt)\<close>, statement by statement. The engine
  object \<^verbatim>\<open>my_prob\<close> is mutated by each call; here every call returns the new engine state.
\<close>

definition lprog ::
  "'e cplex \<Rightarrow> real list list \<Rightarrow> real list \<Rightarrow> real list \<Rightarrow> real list \<Rightarrow> real list \<Rightarrow>
     bool \<Rightarrow> bool \<Rightarrow> (real list \<times> real) run" where
  "lprog eng A b c u l saveOpt quietOpt =
     and_then (dims A) (\<lambda>(noRow, noCol).
     and_then (engine_call Cplex_new (Cplex eng)) (\<lambda>my_prob.
     and_then (engine_call (Set_sense maximize) (objective_set_sense eng my_prob maximize)) (\<lambda>my_prob.
     let my_colnames = colnames noCol in
     and_then (engine_call (Variables_add c u l None my_colnames)
                 (variables_add eng my_prob c u l None my_colnames)) (\<lambda>my_prob.
     let A' = sparse_rows A noRow noCol;
         senses = [replicate noRow (CHR ''L'')] in
     and_then (engine_call (Linear_constraints_add A' senses b)
                 (linear_constraints_add eng my_prob A' senses b)) (\<lambda>my_prob.
     and_then
       (if quietOpt then
          and_then (engine_call Set_log_stream_None (set_log_stream eng my_prob)) (\<lambda>my_prob.
          and_then (engine_call Set_error_stream_None (set_error_stream eng my_prob)) (\<lambda>my_prob.
          and_then (engine_call Set_warning_stream_None (set_warning_stream eng my_prob)) (\<lambda>my_prob.
          engine_call Set_results_stream_None (set_results_stream eng my_prob))))
        else returns my_prob) (\<lambda>my_prob.
     try_except_CplexError
       (and_then (engine_call Solve (solve eng my_prob)) (\<lambda>my_prob.
        and_then
          (if saveOpt then
             and_then (engine_call (Write ''lprog.lp'') (write_file eng my_prob ''lprog.lp'')) (\<lambda>my_prob.
             and_then (print ''LP saved as lprog.lp'') (\<lambda>_. returns my_prob))
           else returns my_prob) (\<lambda>my_prob.
        and_then (engine_call Get_values (solution_get_values eng my_prob)) (\<lambda>x.
        and_then (engine_call Get_objective_value (solution_get_objective_value eng my_prob)) (\<lambda>obj.
        returns (x, obj))))))
       (\<lambda>exc. and_then (print exc) (\<lambda>_. returns ([], - 1)))))))))"

section \<open>The mixed-integer facade\<close>

text \<open>
  \<^verbatim>\<open>def mip(A, b, c, u, l, varType, saveOpt, quietOpt)\<close>. It differs from \<^verbatim>\<open>lprog\<close> in
  the argument \<^verbatim>\<open>types=varType\<close> of \<^verbatim>\<open>variables.add\<close> and in the file name.
\<close>

definition mip ::
  "'e cplex \<Rightarrow> real list list \<Rightarrow> real list \<Rightarrow> real list \<Rightarrow> real list \<Rightarrow> real list \<Rightarrow>
     string \<Rightarrow> bool \<Rightarrow> bool \<Rightarrow> (real list \<times> real) run" where
  "mip eng A b c u l varType saveOpt quietOpt =
     and_then (dims A) (\<lambda>(noRow, noCol).
     and_then (engine_call Cplex_new (Cplex eng)) (\<lambda>my_prob.
     and_then (engine_call (Set_sense maximize) (objective_set_sense eng my_prob maximize)) (\<lambda>my_prob.
     let my_colnames = colnames noCol in
     and_then (engine_call (Variables_add c u l (Some varType) my_colnames)
                 (variables_add eng my_prob c u l (Some varType) my_colnames)) (\<lambda>my_prob.
     let A' = sparse_rows A noRow noCol;
         senses = [replicate noRow (CHR ''L'')] in
     and_then (engine_call (Linear_constraints_add A' senses b)
                 (linear_constraints_add eng my_prob A' senses b)) (\<lambda>my_prob.
     and_then
       (if quietOpt then
          and_then (engine_call Set_log_stream_None (set_log_stream eng my_prob)) (\<lambda>my_prob.
          and_then (engine_call Set_error_stream_None (set_error_stream eng my_prob)) (\<lambda>my_prob.
          and_then (engine_call Set_warning_stream_None (set_warning_stream eng my_prob)) (\<lambda>my_prob.
          engine_call Set_results_stream_None (set_results_stream eng my_prob))))
        else returns my_prob) (\<lambda>my_prob.
     try_except_CplexError
       (and_then (engine_call Solve (solve eng my_prob)) (\<lambda>my_prob.
        and_then
          (if saveOpt then
             and_then (engine_call (Write ''mip.lp'') (write_file eng my_prob ''mip.lp'')) (\<lambda>my_prob.
             and_then (print ''LP saved as mip.lp'') (\<lambda>_. returns my_prob))
           else returns my_prob) (\<lambda>my_prob.
        and_then (engine_call Get_values (solution_get_values eng my_prob)) (\<lambda>x.
        and_then (engine_call Get_objective_value (solution_get_objective_value eng my_prob)) (\<lambda>obj.
        returns (x, obj))))))
       (\<lambda>exc. and_then (print exc) (\<lambda>_. returns ([], - 1)))))))))"

section \<open>The common shape of the two bodies\<close>

text \<open>
  Both bodies have three parts: the statements that build the model (up to
  \<^verbatim>\<open>linear_constraints.add\<close>), the \<^verbatim>\<open>if quietOpt\<close> block, and the \<^verbatim>\<open>try\<close> statement with
  its handler. The parts are named here, with the \<^verbatim>\<open>types\<close> argument and the file name as
  parameters, and the two facades are shown below to be their composition.
\<close>

definition build ::
  "'e cplex \<Rightarrow> string option \<Rightarrow> real list list \<Rightarrow> real list \<Rightarrow> real list \<Rightarrow> real list \<Rightarrow>
     real list \<Rightarrow> 'e run" where
  "build eng types A b c u l =
     and_then (dims A) (\<lambda>(noRow, noCol).
     and_then (engine_call Cplex_new (Cplex eng)) (\<lambda>my_prob.
     and_then (engine_call (Set_sense maximize) (objective_set_sense eng my_prob maximize)) (\<lambda>my_prob.
     let my_colnames = colnames noCol in
     and_then (engine_call (Variables_add c u l types my_colnames)
                 (variables_add eng my_prob c u l types my_colnames)) (\<lambda>my_prob.
     let A' = sparse_rows A noRow noCol;
         senses = [replicate noRow (CHR ''L'')] in
     engine_call (Linear_constraints_add A' senses b)
       (linear_constraints_add eng my_prob A' senses b)))))"

definition silence :: "'e cplex \<Rightarrow> bool \<Rightarrow> 'e \<Rightarrow> 'e run" where
  "silence eng quietOpt my_prob =
     (if quietOpt then
        and_then (engine_call Set_log_stream_None (set_log_stream eng my_prob)) (\<lambda>my_prob.
        and_then (engine_call Set_error_stream_None (set_error_stream eng my_prob)) (\<lambda>my_prob.
        and_then (engine_call Set_warning_stream_None (set_warning_stream eng my_prob)) (\<lambda>my_prob.
        engine_call Set_results_stream_None (set_results_stream eng my_prob))))
      else returns my_prob)"

definition attempt :: "'e cplex \<Rightarrow> string \<Rightarrow> bool \<Rightarrow> 'e \<Rightarrow> (real list \<times> real) run" where
  "attempt eng fname saveOpt my_prob =
     and_then (engine_call Solve (solve eng my_prob)) (\<lambda>my_prob.
     and_then
       (if saveOpt then
          and_then (engine_call (Write fname) (write_file eng my_prob fname)) (\<lambda>my_prob.
          and_then (print (''LP saved as '' @ fname)) (\<lambda>_. returns my_prob))
        else returns my_prob) (\<lambda>my_prob.
     and_then (engine_call Get_values (solution_get_values eng my_prob)) (\<lambda>x.
     and_then (engine_call Get_objective_value (solution_get_objective_value eng my_prob)) (\<lambda>obj.
     returns (x, obj)))))"

definition handler :: "string \<Rightarrow> (real list \<times> real) run" where
  "handler exc = and_then (print exc) (\<lambda>_. returns ([], - 1))"

definition facade ::
  "'e cplex \<Rightarrow> string option \<Rightarrow> string \<Rightarrow> real list list \<Rightarrow> real list \<Rightarrow> real list \<Rightarrow>
     real list \<Rightarrow> real list \<Rightarrow> bool \<Rightarrow> bool \<Rightarrow> (real list \<times> real) run" where
  "facade eng types fname A b c u l saveOpt quietOpt =
     and_then (build eng types A b c u l) (\<lambda>my_prob.
     and_then (silence eng quietOpt my_prob) (\<lambda>my_prob.
     try_except_CplexError (attempt eng fname saveOpt my_prob) handler))"

section \<open>What a run leaves behind\<close>

text \<open>
  The files a run has written: the names passed to the calls of the engine's \<^verbatim>\<open>write\<close> that
  returned without raising, oldest first.
\<close>

fun files_written :: "event list \<Rightarrow> string list" where
  "files_written [] = []"
| "files_written (Engine (Write f) None # t) = f # files_written t"
| "files_written (_ # t) = files_written t"

section \<open>Contracts of the engine\<close>

text \<open>
  The engine's documentation presents the four stream setters as a matter of output only.
  As a contract on an engine: there is a part \<open>core\<close> of the engine state that the setters
  leave alone, that \<^verbatim>\<open>solve\<close> and \<^verbatim>\<open>write\<close> respect, and that alone decides what the two
  solution accessors answer; and the setters do not raise.
\<close>

definition presentation_only :: "'e cplex \<Rightarrow> ('e \<Rightarrow> 'c) \<Rightarrow> bool" where
  "presentation_only eng core \<longleftrightarrow>
     (\<forall>p. \<exists>p'. set_log_stream eng p = Inr p' \<and> core p' = core p) \<and>
     (\<forall>p. \<exists>p'. set_error_stream eng p = Inr p' \<and> core p' = core p) \<and>
     (\<forall>p. \<exists>p'. set_warning_stream eng p = Inr p' \<and> core p' = core p) \<and>
     (\<forall>p. \<exists>p'. set_results_stream eng p = Inr p' \<and> core p' = core p) \<and>
     (\<forall>p q. core p = core q \<longrightarrow>
        rel_sum (=) (\<lambda>p' q'. core p' = core q') (solve eng p) (solve eng q)) \<and>
     (\<forall>p q f. core p = core q \<longrightarrow>
        rel_sum (=) (\<lambda>p' q'. core p' = core q') (write_file eng p f) (write_file eng q f)) \<and>
     (\<forall>p q. core p = core q \<longrightarrow> solution_get_values eng p = solution_get_values eng q) \<and>
     (\<forall>p q. core p = core q \<longrightarrow>
        solution_get_objective_value eng p = solution_get_objective_value eng q)"

section \<open>Scripted engines and the data of the notebooks\<close>

text \<open>
  For concrete runs, an engine that follows a script. Its state is the list of the calls it
  has accepted. The script says which calls raise, and what; the solution accessors answer
  with fixed values unless the script makes them raise.
\<close>

definition respond :: "(call \<Rightarrow> exn option) \<Rightarrow> call list \<Rightarrow> call \<Rightarrow> exn + call list" where
  "respond script h ca = (case script ca of Some x \<Rightarrow> Inl x | None \<Rightarrow> Inr (h @ [ca]))"

definition scripted :: "(call \<Rightarrow> exn option) \<Rightarrow> real list \<Rightarrow> real \<Rightarrow> call list cplex" where
  "scripted script vals obj =
     \<lparr> Cplex = respond script [] Cplex_new,
       objective_set_sense = (\<lambda>h s. respond script h (Set_sense s)),
       variables_add = (\<lambda>h c u l ty ns. respond script h (Variables_add c u l ty ns)),
       linear_constraints_add =
         (\<lambda>h rows senses rhs. respond script h (Linear_constraints_add rows senses rhs)),
       set_log_stream = (\<lambda>h. respond script h Set_log_stream_None),
       set_error_stream = (\<lambda>h. respond script h Set_error_stream_None),
       set_warning_stream = (\<lambda>h. respond script h Set_warning_stream_None),
       set_results_stream = (\<lambda>h. respond script h Set_results_stream_None),
       solve = (\<lambda>h. respond script h Solve),
       write_file = (\<lambda>h f. respond script h (Write f)),
       solution_get_values =
         (\<lambda>h. case script Get_values of Some x \<Rightarrow> Inl x | None \<Rightarrow> Inr vals),
       solution_get_objective_value =
         (\<lambda>h. case script Get_objective_value of Some x \<Rightarrow> Inl x | None \<Rightarrow> Inr obj) \<rparr>"

text \<open>
  The data cell of the notebooks (\<^verbatim>\<open>cplex.infinity\<close> is \<open>1e20\<close>), and the two runs they
  record. In the first every call returns, and the solution is the one printed under the
  fourth cell of each notebook. In the second the right-hand side makes
  the model infeasible: \<^verbatim>\<open>solve\<close> and \<^verbatim>\<open>write\<close> return, and reading the values raises the
  error printed under the fifth cell.
\<close>

definition notebook_A :: "real list list" where
  "notebook_A = [[- 1, 1, 1], [1, - 3, 1]]"

definition notebook_b :: "real list" where
  "notebook_b = [20, 30]"

definition notebook_c :: "real list" where
  "notebook_c = [1, 2, 3]"

definition notebook_u :: "real list" where
  "notebook_u = [40, 10 ^ 20, 10 ^ 20]"

definition notebook_l :: "real list" where
  "notebook_l = [0, 0, 0]"

definition infeasible_b :: "real list" where
  "infeasible_b = [- 99999, - 999999]"

definition feasible_run :: "call list cplex" where
  "feasible_run = scripted (\<lambda>_. None) [40, 35 / 2, 85 / 2] (405 / 2)"

definition feasible_mip_run :: "call list cplex" where
  "feasible_mip_run = scripted (\<lambda>_. None) [40, 18, 42] 202"

definition no_solution :: "call \<Rightarrow> exn option" where
  "no_solution ca =
     (case ca of
        Get_values \<Rightarrow> Some (CplexError ''CPLEX Error  1217: No solution exists.'')
      | _ \<Rightarrow> None)"

definition infeasible_run :: "call list cplex" where
  "infeasible_run = scripted no_solution [] 0"

text \<open>
  An engine that checks, in \<^verbatim>\<open>variables.add\<close>, the lengths of the arguments it is given:
  those that are not empty must all have one length (an empty one stands for the engine's
  defaults). Otherwise it raises its own error.
\<close>

definition consistent_lengths :: "nat list \<Rightarrow> bool" where
  "consistent_lengths ns = list_all (\<lambda>n. n = 0 \<or> n = foldr max ns 0) ns"

definition same_lengths :: "call \<Rightarrow> exn option" where
  "same_lengths ca =
     (case ca of
        Variables_add c u l ty ns \<Rightarrow>
          if consistent_lengths
               [length c, length u, length l,
                (case ty of None \<Rightarrow> 0 | Some s \<Rightarrow> length s), length ns]
          then None else Some (CplexError ''inconsistent arguments'')
      | _ \<Rightarrow> None)"

definition checking_run :: "call list cplex" where
  "checking_run = scripted same_lengths [40, 35 / 2, 85 / 2] (405 / 2)"

text \<open>
  An engine whose \<^verbatim>\<open>write\<close> raises (the file cannot be opened).
\<close>

definition write_fails :: "call \<Rightarrow> exn option" where
  "write_fails ca =
     (case ca of
        Write f \<Rightarrow> Some (CplexError ''CPLEX Error  1422: Could not open file for writing.'')
      | _ \<Rightarrow> None)"

definition unwritable_run :: "call list cplex" where
  "unwritable_run = scripted write_fails [40, 35 / 2, 85 / 2] (405 / 2)"

text \<open>The exceptions that \<^verbatim>\<open>except CplexError\<close> catches.\<close>

fun is_CplexError :: "exn \<Rightarrow> bool" where
  "is_CplexError (CplexError s) = True"
| "is_CplexError _ = False"

text \<open>
  For the scripted engines, the part of the state that is not about output: the calls
  accepted so far, without the four stream setters.
\<close>

fun is_stream_setter :: "call \<Rightarrow> bool" where
  "is_stream_setter Set_log_stream_None = True"
| "is_stream_setter Set_error_stream_None = True"
| "is_stream_setter Set_warning_stream_None = True"
| "is_stream_setter Set_results_stream_None = True"
| "is_stream_setter _ = False"

definition solver_calls :: "call list \<Rightarrow> call list" where
  "solver_calls h = filter (\<lambda>ca. \<not> is_stream_setter ca) h"

text \<open>The calls that build the model, all of them made before the \<^verbatim>\<open>try\<close> statement.\<close>

fun builds_model :: "call \<Rightarrow> bool" where
  "builds_model Cplex_new = True"
| "builds_model (Set_sense s) = True"
| "builds_model (Variables_add c u l ty ns) = True"
| "builds_model (Linear_constraints_add rows senses rhs) = True"
| "builds_model _ = False"

section \<open>Laws of sequencing, and the decomposition\<close>

lemma and_then_assoc: "and_then (and_then m f) g = and_then m (\<lambda>a. and_then (f a) g)"
  by (cases m; cases "fst m") (auto simp: and_then_def split: prod.splits sum.splits)

lemma and_then_raises: "and_then (raises x) f = raises x"
  by (simp add: and_then_def raises_def)

lemma and_then_returns: "and_then (returns a) f = f a"
  by (simp add: and_then_def returns_def split: prod.splits)

lemma lprog_facade:
  "lprog eng A b c u l saveOpt quietOpt = facade eng None ''lprog.lp'' A b c u l saveOpt quietOpt"
  by (cases A)
     (simp_all add: lprog_def facade_def build_def silence_def attempt_def handler_def[abs_def]
        dims_def and_then_assoc and_then_raises and_then_returns Let_def cong del: if_weak_cong)

lemma mip_facade:
  "mip eng A b c u l varType saveOpt quietOpt =
     facade eng (Some varType) ''mip.lp'' A b c u l saveOpt quietOpt"
  by (cases A)
     (simp_all add: mip_def facade_def build_def silence_def attempt_def handler_def[abs_def]
        dims_def and_then_assoc and_then_raises and_then_returns Let_def cong del: if_weak_cong)

lemma fst_and_then: "fst (and_then m f) = (case fst m of Inl x \<Rightarrow> Inl x | Inr a \<Rightarrow> fst (f a))"
  by (cases m; cases "fst m") (auto simp: and_then_def split: prod.splits)

lemma snd_and_then:
  "snd (and_then m f) = (case fst m of Inl x \<Rightarrow> snd m | Inr a \<Rightarrow> snd m @ snd (f a))"
  by (cases m; cases "fst m") (auto simp: and_then_def split: prod.splits)

lemma fst_try_handler:
  "fst (try_except_CplexError m handler) =
     (case fst m of Inl (CplexError s) \<Rightarrow> Inr ([], - 1) | Inl x \<Rightarrow> Inl x | Inr a \<Rightarrow> Inr a)"
  by (cases "(m, handler)" rule: try_except_CplexError.cases)
     (simp_all add: handler_def and_then_def print_def returns_def)

lemmas run_defs = and_then_def engine_call_def returns_def raises_def print_def dims_def

subsection \<open>Building the model\<close>

lemma build_calls:
  "Engine ca ob \<in> set (snd (build eng types A b c u l)) \<Longrightarrow>
     ca \<in> {Cplex_new, Set_sense maximize, Variables_add c u l types (colnames (length (hd A))),
           Linear_constraints_add (sparse_rows A (length A) (length (hd A)))
             [replicate (length A) (CHR ''L'')] b}"
  by (cases A) (auto simp: build_def run_defs Let_def split: sum.splits)

lemma build_sound:
  "Engine ca (Some x) \<in> set (snd (build eng types A b c u l)) \<Longrightarrow>
     fst (build eng types A b c u l) = Inl x"
  by (cases A) (auto simp: build_def run_defs Let_def split: sum.splits)

lemma build_caused:
  "A \<noteq> [] \<Longrightarrow> fst (build eng types A b c u l) = Inl x \<Longrightarrow>
     \<exists>ca. Engine ca (Some x) \<in> set (snd (build eng types A b c u l))"
  by (cases A) (auto simp: build_def run_defs Let_def split: sum.splits)

lemma build_first:
  "A \<noteq> [] \<Longrightarrow> \<exists>ob t. snd (build eng types A b c u l) = Engine Cplex_new ob # t"
  by (cases A) (auto simp: build_def run_defs Let_def split: sum.splits)

lemma build_returns:
  "fst (build eng types A b c u l) = Inr p \<Longrightarrow>
     snd (build eng types A b c u l) =
       [Engine Cplex_new None, Engine (Set_sense maximize) None,
        Engine (Variables_add c u l types (colnames (length (hd A)))) None,
        Engine (Linear_constraints_add (sparse_rows A (length A) (length (hd A)))
          [replicate (length A) (CHR ''L'')] b) None]"
  by (cases A) (auto simp: build_def run_defs Let_def split: sum.splits)

subsection \<open>Silencing the streams\<close>

lemma silence_off: "silence eng False p = (Inr p, [])"
  by (simp add: silence_def returns_def)

lemma silence_calls:
  "Engine ca ob \<in> set (snd (silence eng quietOpt p)) \<Longrightarrow>
     ca \<in> {Set_log_stream_None, Set_error_stream_None, Set_warning_stream_None,
           Set_results_stream_None}"
  by (auto simp: silence_def run_defs split: sum.splits if_splits)

lemma silence_sound:
  "Engine ca (Some x) \<in> set (snd (silence eng quietOpt p)) \<Longrightarrow>
     fst (silence eng quietOpt p) = Inl x"
  by (auto simp: silence_def run_defs split: sum.splits if_splits)

lemma silence_caused:
  "fst (silence eng quietOpt p) = Inl x \<Longrightarrow>
     \<exists>ca. Engine ca (Some x) \<in> set (snd (silence eng quietOpt p))"
  by (auto simp: silence_def run_defs split: sum.splits if_splits)

subsection \<open>The body of the try statement\<close>

lemma attempt_calls:
  "Engine ca ob \<in> set (snd (attempt eng fname saveOpt p)) \<Longrightarrow>
     ca \<in> {Solve, Write fname, Get_values, Get_objective_value}"
  by (auto simp: attempt_def run_defs split: sum.splits if_splits)

lemma attempt_sound:
  "Engine ca (Some x) \<in> set (snd (attempt eng fname saveOpt p)) \<Longrightarrow>
     fst (attempt eng fname saveOpt p) = Inl x"
  by (auto simp: attempt_def run_defs split: sum.splits if_splits)

lemma attempt_caused:
  "fst (attempt eng fname saveOpt p) = Inl x \<Longrightarrow>
     \<exists>ca. Engine ca (Some x) \<in> set (snd (attempt eng fname saveOpt p))"
  by (auto simp: attempt_def run_defs split: sum.splits if_splits)

lemma attempt_no_write: "Engine (Write f) ob \<notin> set (snd (attempt eng fname False p))"
  by (auto simp: attempt_def run_defs split: sum.splits)

lemma attempt_write_follows_solve:
  "Engine Solve None \<in> set (snd (attempt eng fname True p)) \<Longrightarrow>
     \<exists>ob t. snd (attempt eng fname True p) = Engine Solve None # Engine (Write fname) ob # t"
  by (auto simp: attempt_def run_defs split: sum.splits)

subsection \<open>The whole body, by cases\<close>

lemma try_handler_cases:
  obtains (caught) s where "fst m = Inl (CplexError s)"
      and "try_except_CplexError m handler = (Inr ([], - 1), snd m @ [Print s])"
  | (passed) "\<forall>s. fst m \<noteq> Inl (CplexError s)" and "try_except_CplexError m handler = m"
  by (cases "(m, handler)" rule: try_except_CplexError.cases)
     (auto simp: handler_def and_then_def print_def returns_def)

lemma facade_cases:
  obtains (build_raised) x where "fst (build eng types A b c u l) = Inl x"
      and "facade eng types fname A b c u l saveOpt quietOpt = (Inl x, snd (build eng types A b c u l))"
  | (silence_raised) p x where "fst (build eng types A b c u l) = Inr p"
      and "fst (silence eng quietOpt p) = Inl x"
      and "facade eng types fname A b c u l saveOpt quietOpt =
             (Inl x, snd (build eng types A b c u l) @ snd (silence eng quietOpt p))"
  | (attempted) p p' where "fst (build eng types A b c u l) = Inr p"
      and "fst (silence eng quietOpt p) = Inr p'"
      and "facade eng types fname A b c u l saveOpt quietOpt =
             (fst (try_except_CplexError (attempt eng fname saveOpt p') handler),
              snd (build eng types A b c u l) @ snd (silence eng quietOpt p) @
              snd (try_except_CplexError (attempt eng fname saveOpt p') handler))"
proof (cases "fst (build eng types A b c u l)")
  case (Inl x)
  then have "facade eng types fname A b c u l saveOpt quietOpt = (Inl x, snd (build eng types A b c u l))"
    by (simp add: facade_def prod_eq_iff fst_and_then snd_and_then)
  with Inl show thesis by (rule build_raised)
next
  case (Inr p)
  show thesis
  proof (cases "fst (silence eng quietOpt p)")
    case (Inl x)
    with Inr have "facade eng types fname A b c u l saveOpt quietOpt =
        (Inl x, snd (build eng types A b c u l) @ snd (silence eng quietOpt p))"
      by (simp add: facade_def prod_eq_iff fst_and_then snd_and_then)
    with Inr Inl show thesis by (rule silence_raised)
  next
    case (Inr p')
    with \<open>fst (build eng types A b c u l) = Inr p\<close>
    have "facade eng types fname A b c u l saveOpt quietOpt =
             (fst (try_except_CplexError (attempt eng fname saveOpt p') handler),
              snd (build eng types A b c u l) @ snd (silence eng quietOpt p) @
              snd (try_except_CplexError (attempt eng fname saveOpt p') handler))"
      by (simp add: facade_def prod_eq_iff fst_and_then snd_and_then)
    with \<open>fst (build eng types A b c u l) = Inr p\<close> Inr show thesis by (rule attempted)
  qed
qed

lemma facade_raised:
  assumes "Engine ca (Some x) \<in> set (snd (facade eng types fname A b c u l saveOpt quietOpt))"
  shows "fst (facade eng types fname A b c u l saveOpt quietOpt) =
           (if is_CplexError x \<and> ca \<in> {Solve, Write fname, Get_values, Get_objective_value}
            then Inr ([], - 1) else Inl x)"
proof (cases rule: facade_cases [where eng = eng and types = types and A = A and b = b and c = c and u = u and l = l
    and fname = fname and saveOpt = saveOpt and quietOpt = quietOpt])
  case (build_raised x')
  with assms have ev: "Engine ca (Some x) \<in> set (snd (build eng types A b c u l))" by simp
  from build_sound [OF ev] build_raised have "x' = x" by simp
  moreover from build_calls [OF ev]
  have "ca \<notin> {Solve, Write fname, Get_values, Get_objective_value}" by auto
  ultimately show ?thesis using build_raised by simp
next
  case (silence_raised p x')
  with assms have "Engine ca (Some x) \<in> set (snd (build eng types A b c u l)) \<or>
      Engine ca (Some x) \<in> set (snd (silence eng quietOpt p))" by simp
  with build_sound [of ca x eng types A b c u l] silence_raised
  have ev: "Engine ca (Some x) \<in> set (snd (silence eng quietOpt p))" by auto
  from silence_sound [OF ev] silence_raised have "x' = x" by simp
  moreover from silence_calls [OF ev]
  have "ca \<notin> {Solve, Write fname, Get_values, Get_objective_value}" by auto
  ultimately show ?thesis using silence_raised by simp
next
  case (attempted p p')
  let ?m = "attempt eng fname saveOpt p'"
  from attempted assms have "Engine ca (Some x) \<in> set (snd (build eng types A b c u l)) \<or>
      Engine ca (Some x) \<in> set (snd (silence eng quietOpt p)) \<or>
      Engine ca (Some x) \<in> set (snd (try_except_CplexError ?m handler))" by simp
  with build_sound [of ca x eng types A b c u l] silence_sound [of ca x eng quietOpt p] attempted
  have ev: "Engine ca (Some x) \<in> set (snd (try_except_CplexError ?m handler))" by auto
  show ?thesis
  proof (cases rule: try_handler_cases [where m = ?m])
    case (caught s)
    with ev have ev': "Engine ca (Some x) \<in> set (snd ?m)" by simp
    from attempt_sound [OF ev'] caught have "x = CplexError s" by simp
    moreover from attempt_calls [OF ev']
    have "ca \<in> {Solve, Write fname, Get_values, Get_objective_value}" .
    ultimately show ?thesis using attempted caught by simp
  next
    case passed
    with ev have ev': "Engine ca (Some x) \<in> set (snd ?m)" by simp
    from attempt_sound [OF ev'] have fm: "fst ?m = Inl x" .
    with passed have "\<not> is_CplexError x" by (cases x) auto
    with attempted passed fm show ?thesis by simp
  qed
qed

lemma facade_caught_last:
  assumes "Engine ca (Some (CplexError s)) \<in> set (snd (facade eng types fname A b c u l saveOpt quietOpt))"
    and "ca \<in> {Solve, Get_values, Get_objective_value}"
  shows "last (snd (facade eng types fname A b c u l saveOpt quietOpt)) = Print s"
proof (cases rule: facade_cases [where eng = eng and types = types and A = A and b = b and c = c and u = u and l = l
    and fname = fname and saveOpt = saveOpt and quietOpt = quietOpt])
  case (build_raised x')
  with assms have ev: "Engine ca (Some (CplexError s)) \<in> set (snd (build eng types A b c u l))" by simp
  from build_calls [OF ev] assms(2) show ?thesis by auto
next
  case (silence_raised p x')
  with assms have "Engine ca (Some (CplexError s)) \<in> set (snd (build eng types A b c u l)) \<or>
      Engine ca (Some (CplexError s)) \<in> set (snd (silence eng quietOpt p))" by simp
  with build_calls [of ca _ eng types A b c u l] silence_calls [of ca _ eng quietOpt p] assms(2)
  show ?thesis by auto
next
  case (attempted p p')
  let ?m = "attempt eng fname saveOpt p'"
  from attempted assms have "Engine ca (Some (CplexError s)) \<in> set (snd (build eng types A b c u l)) \<or>
      Engine ca (Some (CplexError s)) \<in> set (snd (silence eng quietOpt p)) \<or>
      Engine ca (Some (CplexError s)) \<in> set (snd (try_except_CplexError ?m handler))" by simp
  with build_calls [of ca _ eng types A b c u l] silence_calls [of ca _ eng quietOpt p] assms(2)
  have ev: "Engine ca (Some (CplexError s)) \<in> set (snd (try_except_CplexError ?m handler))" by auto
  show ?thesis
  proof (cases rule: try_handler_cases [where m = ?m])
    case (caught s')
    with ev have ev': "Engine ca (Some (CplexError s)) \<in> set (snd ?m)" by simp
    from attempt_sound [OF ev'] caught have "s' = s" by simp
    with attempted caught show ?thesis by simp
  next
    case passed
    with ev have ev': "Engine ca (Some (CplexError s)) \<in> set (snd ?m)" by simp
    from attempt_sound [OF ev'] passed show ?thesis by simp
  qed
qed

subsection \<open>Where each call can occur\<close>

lemma facade_calls:
  assumes "Engine ca ob \<in> set (snd (facade eng types fname A b c u l saveOpt quietOpt))"
  shows "ca \<in> {Cplex_new, Set_sense maximize,
             Variables_add c u l types (colnames (length (hd A))),
             Linear_constraints_add (sparse_rows A (length A) (length (hd A)))
               [replicate (length A) (CHR ''L'')] b,
             Set_log_stream_None, Set_error_stream_None, Set_warning_stream_None,
             Set_results_stream_None, Solve, Write fname, Get_values, Get_objective_value}"
proof (cases rule: facade_cases [where eng = eng and types = types and A = A and b = b and c = c and u = u and l = l
    and fname = fname and saveOpt = saveOpt and quietOpt = quietOpt])
  case (build_raised x)
  with assms build_calls [of ca ob eng types A b c u l] show ?thesis by auto
next
  case (silence_raised p x)
  with assms build_calls [of ca ob eng types A b c u l] silence_calls [of ca ob eng quietOpt p]
  show ?thesis by auto
next
  case (attempted p p')
  let ?m = "attempt eng fname saveOpt p'"
  have "Engine ca ob \<in> set (snd (try_except_CplexError ?m handler)) \<Longrightarrow>
      Engine ca ob \<in> set (snd ?m)"
    by (cases rule: try_handler_cases [where m = ?m]) auto
  with attempted assms build_calls [of ca ob eng types A b c u l]
    silence_calls [of ca ob eng quietOpt p] attempt_calls [of ca ob eng fname saveOpt p']
  show ?thesis by auto
qed

lemma facade_write_needs_saveOpt:
  assumes "Engine (Write f) ob \<in> set (snd (facade eng types fname A b c u l saveOpt quietOpt))"
  shows "saveOpt"
proof (cases rule: facade_cases [where eng = eng and types = types and A = A and b = b and c = c and u = u and l = l
    and fname = fname and saveOpt = saveOpt and quietOpt = quietOpt])
  case (build_raised x)
  with assms build_calls [of "Write f" ob eng types A b c u l] show ?thesis by auto
next
  case (silence_raised p x)
  with assms build_calls [of "Write f" ob eng types A b c u l]
    silence_calls [of "Write f" ob eng quietOpt p]
  show ?thesis by auto
next
  case (attempted p p')
  let ?m = "attempt eng fname saveOpt p'"
  have "Engine (Write f) ob \<in> set (snd (try_except_CplexError ?m handler)) \<Longrightarrow>
      Engine (Write f) ob \<in> set (snd ?m)"
    by (cases rule: try_handler_cases [where m = ?m]) auto
  with attempted assms build_calls [of "Write f" ob eng types A b c u l]
    silence_calls [of "Write f" ob eng quietOpt p]
  have "Engine (Write f) ob \<in> set (snd ?m)" by auto
  with attempt_no_write [of f ob eng fname p'] show ?thesis by (cases saveOpt) auto
qed

lemma facade_solve_reached:
  assumes "Engine Solve ob \<in> set (snd (facade eng types fname A b c u l saveOpt quietOpt))"
  obtains p p' where "fst (build eng types A b c u l) = Inr p"
    and "fst (silence eng quietOpt p) = Inr p'"
    and "facade eng types fname A b c u l saveOpt quietOpt =
           (fst (try_except_CplexError (attempt eng fname saveOpt p') handler),
            snd (build eng types A b c u l) @ snd (silence eng quietOpt p) @
            snd (try_except_CplexError (attempt eng fname saveOpt p') handler))"
    and "Engine Solve ob \<in> set (snd (attempt eng fname saveOpt p'))"
proof (cases rule: facade_cases [where eng = eng and types = types and A = A and b = b and c = c and u = u and l = l
    and fname = fname and saveOpt = saveOpt and quietOpt = quietOpt])
  case (build_raised x)
  with assms build_calls [of Solve ob eng types A b c u l] show ?thesis by auto
next
  case (silence_raised p x)
  with assms build_calls [of Solve ob eng types A b c u l] silence_calls [of Solve ob eng quietOpt p]
  show ?thesis by auto
next
  case (attempted p p')
  let ?m = "attempt eng fname saveOpt p'"
  have "Engine Solve ob \<in> set (snd (try_except_CplexError ?m handler)) \<Longrightarrow>
      Engine Solve ob \<in> set (snd ?m)"
    by (cases rule: try_handler_cases [where m = ?m]) auto
  with attempted assms build_calls [of Solve ob eng types A b c u l]
    silence_calls [of Solve ob eng quietOpt p]
  have "Engine Solve ob \<in> set (snd ?m)" by auto
  with attempted show ?thesis by (rule that)
qed

lemma facade_write_follows_solve:
  assumes "Engine Solve None \<in> set (snd (facade eng types fname A b c u l True quietOpt))"
  shows "\<exists>t1 ob t2. snd (facade eng types fname A b c u l True quietOpt) =
           t1 @ Engine Solve None # Engine (Write fname) ob # t2"
proof -
  from assms obtain p p' where
    run: "facade eng types fname A b c u l True quietOpt =
           (fst (try_except_CplexError (attempt eng fname True p') handler),
            snd (build eng types A b c u l) @ snd (silence eng quietOpt p) @
            snd (try_except_CplexError (attempt eng fname True p') handler))"
    and ev: "Engine Solve None \<in> set (snd (attempt eng fname True p'))"
    by (rule facade_solve_reached)
  let ?m = "attempt eng fname True p'"
  from attempt_write_follows_solve [OF ev] obtain ob t
    where m: "snd ?m = Engine Solve None # Engine (Write fname) ob # t" by blast
  have "\<exists>t'. snd (try_except_CplexError ?m handler) = snd ?m @ t'"
    by (cases rule: try_handler_cases [where m = ?m]) auto
  then obtain t' where "snd (try_except_CplexError ?m handler) = snd ?m @ t'" ..
  with run m have "snd (facade eng types fname A b c u l True quietOpt) =
      (snd (build eng types A b c u l) @ snd (silence eng quietOpt p)) @
      Engine Solve None # Engine (Write fname) ob # (t @ t')" by simp
  then show ?thesis by blast
qed

lemma facade_model_handed_over:
  assumes "Engine Solve ob \<in> set (snd (facade eng types fname A b c u l saveOpt quietOpt))"
  shows "Engine (Set_sense maximize) None
           \<in> set (snd (facade eng types fname A b c u l saveOpt quietOpt)) \<and>
         Engine (Variables_add c u l types (colnames (length (hd A)))) None
           \<in> set (snd (facade eng types fname A b c u l saveOpt quietOpt)) \<and>
         Engine (Linear_constraints_add (sparse_rows A (length A) (length (hd A)))
             [replicate (length A) (CHR ''L'')] b) None
           \<in> set (snd (facade eng types fname A b c u l saveOpt quietOpt))"
proof -
  from assms obtain p p' where b: "fst (build eng types A b c u l) = Inr p"
    and run: "facade eng types fname A b c u l saveOpt quietOpt =
           (fst (try_except_CplexError (attempt eng fname saveOpt p') handler),
            snd (build eng types A b c u l) @ snd (silence eng quietOpt p) @
            snd (try_except_CplexError (attempt eng fname saveOpt p') handler))"
    by (rule facade_solve_reached)
  from build_returns [OF b] run show ?thesis by simp
qed

subsection \<open>The files written\<close>

lemma files_written_append: "files_written (t @ t') = files_written t @ files_written t'"
  by (induction t rule: files_written.induct) simp_all

lemma files_written_none:
  "(\<And>f. Engine (Write f) None \<notin> set t) \<Longrightarrow> files_written t = []"
  by (induction t rule: files_written.induct) auto

lemma files_written_build: "files_written (snd (build eng types A b c u l)) = []"
  using build_calls [of _ None eng types A b c u l] by (intro files_written_none) auto

lemma files_written_silence: "files_written (snd (silence eng quietOpt p)) = []"
  using silence_calls [of _ None eng quietOpt p] by (intro files_written_none) auto

lemma files_written_attempt:
  "files_written (snd (attempt eng fname saveOpt p)) =
     (if Engine (Write fname) None \<in> set (snd (attempt eng fname saveOpt p)) then [fname] else [])"
  by (auto simp: attempt_def run_defs split: sum.splits)

lemma files_written_try:
  "files_written (snd (try_except_CplexError m handler)) = files_written (snd m)"
  by (cases rule: try_handler_cases [where m = m]) (auto simp: files_written_append)

lemma facade_files_written:
  "files_written (snd (facade eng types fname A b c u l saveOpt quietOpt)) =
     (if Engine (Write fname) None \<in> set (snd (facade eng types fname A b c u l saveOpt quietOpt))
      then [fname] else [])"
proof (cases rule: facade_cases [where eng = eng and types = types and A = A and b = b and c = c and u = u and l = l
    and fname = fname and saveOpt = saveOpt and quietOpt = quietOpt])
  case (build_raised x)
  with build_calls [of "Write fname" None eng types A b c u l] show ?thesis
    by (auto simp: files_written_build)
next
  case (silence_raised p x)
  with build_calls [of "Write fname" None eng types A b c u l]
    silence_calls [of "Write fname" None eng quietOpt p]
  show ?thesis by (auto simp: files_written_append files_written_build files_written_silence)
next
  case (attempted p p')
  let ?m = "attempt eng fname saveOpt p'"
  have "Engine (Write fname) None \<in> set (snd (try_except_CplexError ?m handler)) \<longleftrightarrow>
      Engine (Write fname) None \<in> set (snd ?m)"
    by (cases rule: try_handler_cases [where m = ?m]) auto
  with attempted build_calls [of "Write fname" None eng types A b c u l]
    silence_calls [of "Write fname" None eng quietOpt p]
  show ?thesis
    by (auto simp: files_written_append files_written_build files_written_silence
        files_written_try files_written_attempt)
qed

subsection \<open>Under the contract on the stream setters\<close>

lemma silence_core:
  assumes "presentation_only eng core"
  shows "\<exists>p'. fst (silence eng quietOpt p) = Inr p' \<and> core p' = core p"
proof (cases quietOpt)
  case False
  then show ?thesis by (simp add: silence_off)
next
  case True
  from assms obtain p1 where 1: "set_log_stream eng p = Inr p1" "core p1 = core p"
    unfolding presentation_only_def by blast
  from assms obtain p2 where 2: "set_error_stream eng p1 = Inr p2" "core p2 = core p1"
    unfolding presentation_only_def by blast
  from assms obtain p3 where 3: "set_warning_stream eng p2 = Inr p3" "core p3 = core p2"
    unfolding presentation_only_def by blast
  from assms obtain p4 where 4: "set_results_stream eng p3 = Inr p4" "core p4 = core p3"
    unfolding presentation_only_def by blast
  from True 1 2 3 4 show ?thesis by (simp add: silence_def run_defs)
qed

lemma fst_attempt:
  "fst (attempt eng fname saveOpt p) =
     (case solve eng p of
        Inl x \<Rightarrow> Inl x
      | Inr p1 \<Rightarrow>
          (case (if saveOpt then write_file eng p1 fname else Inr p1) of
             Inl x \<Rightarrow> Inl x
           | Inr p2 \<Rightarrow>
               (case solution_get_values eng p2 of
                  Inl x \<Rightarrow> Inl x
                | Inr v \<Rightarrow>
                    (case solution_get_objective_value eng p2 of
                       Inl x \<Rightarrow> Inl x
                     | Inr obj \<Rightarrow> Inr (v, obj)))))"
  by (auto simp: attempt_def run_defs split: sum.splits)

lemma attempt_core:
  assumes po: "presentation_only eng core" and pq: "core p = core q"
  shows "fst (attempt eng fname saveOpt p) = fst (attempt eng fname saveOpt q)"
proof -
  have reading: "solution_get_values eng p2 = solution_get_values eng q2 \<and>
      solution_get_objective_value eng p2 = solution_get_objective_value eng q2"
    if "core p2 = core q2" for p2 q2
    using po that unfolding presentation_only_def by blast
  from po pq have "rel_sum (=) (\<lambda>p' q'. core p' = core q') (solve eng p) (solve eng q)"
    unfolding presentation_only_def by blast
  then consider (solve_raised) x where "solve eng p = Inl x" and "solve eng q = Inl x"
    | (solved) p1 q1 where "solve eng p = Inr p1" and "solve eng q = Inr q1"
        and "core p1 = core q1"
    by (auto elim: rel_sum.cases)
  then show ?thesis
  proof cases
    case solve_raised
    then show ?thesis by (simp add: fst_attempt)
  next
    case solved
    show ?thesis
    proof (cases saveOpt)
      case False
      with solved reading [of p1 q1] show ?thesis
        by (simp add: fst_attempt split: sum.splits)
    next
      case True
      from po solved(3)
      have "rel_sum (=) (\<lambda>p' q'. core p' = core q') (write_file eng p1 fname)
              (write_file eng q1 fname)"
        unfolding presentation_only_def by blast
      then consider (write_raised) x where "write_file eng p1 fname = Inl x"
          and "write_file eng q1 fname = Inl x"
        | (written) p2 q2 where "write_file eng p1 fname = Inr p2"
            and "write_file eng q1 fname = Inr q2" and "core p2 = core q2"
        by (auto elim: rel_sum.cases)
      then show ?thesis
      proof cases
        case write_raised
        with True solved show ?thesis by (simp add: fst_attempt)
      next
        case written
        with True solved reading [of p2 q2] show ?thesis
          by (simp add: fst_attempt split: sum.splits)
      qed
    qed
  qed
qed

lemma facade_quiet:
  assumes "presentation_only eng core"
  shows "fst (facade eng types fname A b c u l saveOpt True) =
         fst (facade eng types fname A b c u l saveOpt False)"
proof (cases "fst (build eng types A b c u l)")
  case (Inl x)
  then show ?thesis by (simp add: facade_def fst_and_then)
next
  case (Inr p)
  from silence_core [OF assms, of True p] obtain p'
    where p': "fst (silence eng True p) = Inr p'" "core p' = core p" by blast
  from attempt_core [OF assms p'(2)]
  have "fst (attempt eng fname saveOpt p') = fst (attempt eng fname saveOpt p)" .
  with Inr p' show ?thesis
    by (simp add: facade_def fst_and_then fst_try_handler silence_off)
qed

lemma scripted_presentation_only: "presentation_only (scripted (\<lambda>_. None) vals obj) solver_calls"
  by (simp add: presentation_only_def scripted_def respond_def solver_calls_def)

subsection \<open>The sparse rows\<close>

lemma length_sparse_rows: "length (sparse_rows A noRow noCol) = noRow"
  by (simp add: sparse_rows_def)

lemma nth_sparse_rows: "j < noRow \<Longrightarrow> sparse_rows A noRow noCol ! j = ([0..<noCol], A ! j)"
  by (simp add: sparse_rows_def)

lemma zip_indices: "zip [0..<length xs] xs = map (\<lambda>i. (i, xs ! i)) [0..<length xs]"
  by (rule nth_equalityI) simp_all

subsection \<open>Failures while the model is built\<close>

lemma build_variables_raised:
  "Engine (Variables_add c' u' l' ty ns) (Some x) \<in> set (snd (build eng types A b c u l)) \<Longrightarrow>
     build eng types A b c u l =
       (Inl x, [Engine Cplex_new None, Engine (Set_sense maximize) None,
                Engine (Variables_add c u l types (colnames (length (hd A)))) (Some x)])"
  by (cases A) (auto simp: build_def run_defs Let_def split: sum.splits)

lemma facade_first:
  assumes "A \<noteq> []"
  shows "\<exists>ob t. snd (facade eng types fname A b c u l saveOpt quietOpt) = Engine Cplex_new ob # t"
proof -
  from build_first [OF assms] obtain ob t
    where t: "snd (build eng types A b c u l) = Engine Cplex_new ob # t" by blast
  show ?thesis
    by (cases rule: facade_cases [where eng = eng and types = types and A = A and b = b
          and c = c and u = u and l = l and fname = fname and saveOpt = saveOpt
          and quietOpt = quietOpt])
       (simp_all add: t)
qed

lemma facade_caused:
  assumes "A \<noteq> []" and "fst (facade eng types fname A b c u l saveOpt quietOpt) = Inl x"
  shows "\<exists>ca. Engine ca (Some x) \<in> set (snd (facade eng types fname A b c u l saveOpt quietOpt))"
proof (cases rule: facade_cases [where eng = eng and types = types and A = A and b = b
    and c = c and u = u and l = l and fname = fname and saveOpt = saveOpt
    and quietOpt = quietOpt])
  case (build_raised x')
  with assms build_caused [of A eng types b c u l x] show ?thesis by auto
next
  case (silence_raised p x')
  with assms silence_caused [of eng quietOpt p x] show ?thesis by auto
next
  case (attempted p p')
  let ?m = "attempt eng fname saveOpt p'"
  show ?thesis
  proof (cases rule: try_handler_cases [where m = ?m])
    case (caught s)
    with attempted assms show ?thesis by simp
  next
    case passed
    with attempted assms attempt_caused [of eng fname saveOpt p' x] show ?thesis by auto
  qed
qed

lemma facade_build_failure:
  assumes ev: "Engine ca (Some x) \<in> set (snd (facade eng types fname A b c u l saveOpt quietOpt))"
    and ca: "builds_model ca"
  shows "facade eng types fname A b c u l saveOpt quietOpt = (Inl x, snd (build eng types A b c u l))"
proof -
  have not_silence: "Engine ca (Some x) \<notin> set (snd (silence eng quietOpt p))" for p
    using silence_calls [of ca "Some x" eng quietOpt p] ca by auto
  have not_attempt: "Engine ca (Some x) \<notin> set (snd (try_except_CplexError
      (attempt eng fname saveOpt p) handler))" for p
  proof -
    have "Engine ca (Some x) \<notin> set (snd (attempt eng fname saveOpt p))"
      using attempt_calls [of ca "Some x" eng fname saveOpt p] ca by auto
    then show ?thesis
      by (cases rule: try_handler_cases [where m = "attempt eng fname saveOpt p"]) auto
  qed
  show ?thesis
  proof (cases rule: facade_cases [where eng = eng and types = types and A = A and b = b
      and c = c and u = u and l = l and fname = fname and saveOpt = saveOpt
      and quietOpt = quietOpt])
    case (build_raised x')
    with ev build_sound [of ca x eng types A b c u l] show ?thesis by simp
  next
    case (silence_raised p x')
    with ev not_silence [of p] build_sound [of ca x eng types A b c u l] show ?thesis by simp
  next
    case (attempted p p')
    with ev not_silence [of p] not_attempt [of p'] build_sound [of ca x eng types A b c u l]
    show ?thesis by simp
  qed
qed

subsection \<open>The order of the calls that build the model\<close>

lemma build_after_Cplex:
  "Engine Cplex_new None \<in> set (snd (build eng types A b c u l)) \<Longrightarrow>
     \<exists>ob t. snd (build eng types A b c u l) =
       Engine Cplex_new None # Engine (Set_sense maximize) ob # t"
  by (cases A) (auto simp: build_def run_defs Let_def split: sum.splits)

lemma build_after_set_sense:
  "Engine (Set_sense maximize) None \<in> set (snd (build eng types A b c u l)) \<Longrightarrow>
     \<exists>ob t. snd (build eng types A b c u l) =
       Engine Cplex_new None # Engine (Set_sense maximize) None #
       Engine (Variables_add c u l types (colnames (length (hd A)))) ob # t"
  by (cases A) (auto simp: build_def run_defs Let_def split: sum.splits)

lemma build_after_variables:
  "Engine (Variables_add c u l types (colnames (length (hd A)))) None
      \<in> set (snd (build eng types A b c u l)) \<Longrightarrow>
     \<exists>ob t. snd (build eng types A b c u l) =
       Engine Cplex_new None # Engine (Set_sense maximize) None #
       Engine (Variables_add c u l types (colnames (length (hd A)))) None #
       Engine (Linear_constraints_add (sparse_rows A (length A) (length (hd A)))
         [replicate (length A) (CHR ''L'')] b) ob # t"
  by (cases A) (auto simp: build_def run_defs Let_def split: sum.splits)

lemma build_accepted:
  "Engine (Linear_constraints_add rows senses rhs) None
      \<in> set (snd (build eng types A b c u l)) \<Longrightarrow>
     \<exists>p. fst (build eng types A b c u l) = Inr p"
  by (cases A) (auto simp: build_def run_defs Let_def split: sum.splits)

lemma silence_accepted:
  "Engine Set_results_stream_None None \<in> set (snd (silence eng quietOpt p)) \<Longrightarrow>
     \<exists>p'. fst (silence eng quietOpt p) = Inr p'"
  by (auto simp: silence_def run_defs split: sum.splits if_splits)

lemma attempt_first: "\<exists>ob t. snd (attempt eng fname saveOpt p) = Engine Solve ob # t"
  by (auto simp: attempt_def run_defs split: sum.splits)

lemma attempt_write_raised:
  "Engine (Write f) (Some x) \<in> set (snd (attempt eng fname saveOpt p)) \<Longrightarrow>
     Engine (Write f') None \<notin> set (snd (attempt eng fname saveOpt p))"
  by (auto simp: attempt_def run_defs split: sum.splits if_splits)

lemma facade_trace_prefix:
  "\<exists>t. snd (facade eng types fname A b c u l saveOpt quietOpt) =
     snd (build eng types A b c u l) @ t"
  by (cases rule: facade_cases [where eng = eng and types = types and A = A and b = b
        and c = c and u = u and l = l and fname = fname and saveOpt = saveOpt
        and quietOpt = quietOpt])
     simp_all

lemma try_handler_events:
  "Engine ca ob \<in> set (snd (try_except_CplexError m handler)) \<longleftrightarrow> Engine ca ob \<in> set (snd m)"
  by (cases rule: try_handler_cases [where m = m]) auto

lemma facade_build_events:
  assumes "builds_model ca"
  shows "Engine ca ob \<in> set (snd (facade eng types fname A b c u l saveOpt quietOpt)) \<longleftrightarrow>
         Engine ca ob \<in> set (snd (build eng types A b c u l))"
proof -
  have not_silence: "Engine ca ob \<notin> set (snd (silence eng quietOpt p))" for p
    using silence_calls [of ca ob eng quietOpt p] assms by auto
  have not_attempt: "Engine ca ob \<notin> set (snd (try_except_CplexError
      (attempt eng fname saveOpt p) handler))" for p
    using attempt_calls [of ca ob eng fname saveOpt p] assms
    by (auto simp: try_handler_events)
  show ?thesis
    by (cases rule: facade_cases [where eng = eng and types = types and A = A and b = b
          and c = c and u = u and l = l and fname = fname and saveOpt = saveOpt
          and quietOpt = quietOpt])
       (simp_all add: not_silence not_attempt)
qed

lemma facade_build_order:
  "(Engine Cplex_new None \<in> set (snd (facade eng types fname A b c u l saveOpt quietOpt)) \<longrightarrow>
      (\<exists>ob t. snd (facade eng types fname A b c u l saveOpt quietOpt) =
         Engine Cplex_new None # Engine (Set_sense maximize) ob # t)) \<and>
   (Engine (Set_sense maximize) None
        \<in> set (snd (facade eng types fname A b c u l saveOpt quietOpt)) \<longrightarrow>
      (\<exists>ob t. snd (facade eng types fname A b c u l saveOpt quietOpt) =
         Engine Cplex_new None # Engine (Set_sense maximize) None #
         Engine (Variables_add c u l types (colnames (length (hd A)))) ob # t)) \<and>
   (Engine (Variables_add c u l types (colnames (length (hd A)))) None
        \<in> set (snd (facade eng types fname A b c u l saveOpt quietOpt)) \<longrightarrow>
      (\<exists>ob t. snd (facade eng types fname A b c u l saveOpt quietOpt) =
         Engine Cplex_new None # Engine (Set_sense maximize) None #
         Engine (Variables_add c u l types (colnames (length (hd A)))) None #
         Engine (Linear_constraints_add (sparse_rows A (length A) (length (hd A)))
           [replicate (length A) (CHR ''L'')] b) ob # t))"
proof -
  obtain t' where t': "snd (facade eng types fname A b c u l saveOpt quietOpt) =
      snd (build eng types A b c u l) @ t'"
    using facade_trace_prefix by blast
  show ?thesis
  proof (intro conjI impI)
    assume "Engine Cplex_new None \<in> set (snd (facade eng types fname A b c u l saveOpt quietOpt))"
    then have "Engine Cplex_new None \<in> set (snd (build eng types A b c u l))"
      by (simp add: facade_build_events)
    from build_after_Cplex [OF this] t'
    show "\<exists>ob t. snd (facade eng types fname A b c u l saveOpt quietOpt) =
         Engine Cplex_new None # Engine (Set_sense maximize) ob # t"
      by auto
  next
    assume "Engine (Set_sense maximize) None
        \<in> set (snd (facade eng types fname A b c u l saveOpt quietOpt))"
    then have "Engine (Set_sense maximize) None \<in> set (snd (build eng types A b c u l))"
      by (simp add: facade_build_events)
    from build_after_set_sense [OF this] t'
    show "\<exists>ob t. snd (facade eng types fname A b c u l saveOpt quietOpt) =
         Engine Cplex_new None # Engine (Set_sense maximize) None #
         Engine (Variables_add c u l types (colnames (length (hd A)))) ob # t"
      by auto
  next
    assume "Engine (Variables_add c u l types (colnames (length (hd A)))) None
        \<in> set (snd (facade eng types fname A b c u l saveOpt quietOpt))"
    then have "Engine (Variables_add c u l types (colnames (length (hd A)))) None
        \<in> set (snd (build eng types A b c u l))"
      by (simp add: facade_build_events)
    from build_after_variables [OF this] t'
    show "\<exists>ob t. snd (facade eng types fname A b c u l saveOpt quietOpt) =
         Engine Cplex_new None # Engine (Set_sense maximize) None #
         Engine (Variables_add c u l types (colnames (length (hd A)))) None #
         Engine (Linear_constraints_add (sparse_rows A (length A) (length (hd A)))
           [replicate (length A) (CHR ''L'')] b) ob # t"
      by auto
  qed
qed

lemma facade_solve_called:
  assumes lc: "Engine (Linear_constraints_add rows senses rhs) None
      \<in> set (snd (facade eng types fname A b c u l saveOpt quietOpt))"
    and quiet: "quietOpt \<longrightarrow> Engine Set_results_stream_None None
      \<in> set (snd (facade eng types fname A b c u l saveOpt quietOpt))"
  shows "\<exists>ob. Engine Solve ob \<in> set (snd (facade eng types fname A b c u l saveOpt quietOpt))"
proof -
  from lc have "Engine (Linear_constraints_add rows senses rhs) None
      \<in> set (snd (build eng types A b c u l))"
    by (simp add: facade_build_events)
  from build_accepted [OF this] obtain p0 where p0: "fst (build eng types A b c u l) = Inr p0" ..
  show ?thesis
  proof (cases rule: facade_cases [where eng = eng and types = types and A = A and b = b
      and c = c and u = u and l = l and fname = fname and saveOpt = saveOpt
      and quietOpt = quietOpt])
    case (build_raised x)
    with p0 show ?thesis by simp
  next
    case (silence_raised p x)
    show ?thesis
    proof (cases quietOpt)
      case False
      with silence_raised show ?thesis by (simp add: silence_off)
    next
      case True
      with quiet silence_raised build_calls [of Set_results_stream_None None eng types A b c u l]
      have "Engine Set_results_stream_None None \<in> set (snd (silence eng quietOpt p))" by auto
      from silence_accepted [OF this] silence_raised show ?thesis by simp
    qed
  next
    case (attempted p p')
    from attempt_first [of eng fname saveOpt p'] obtain ob t
      where "snd (attempt eng fname saveOpt p') = Engine Solve ob # t" by blast
    then have "Engine Solve ob \<in> set (snd (try_except_CplexError
        (attempt eng fname saveOpt p') handler))"
      by (simp add: try_handler_events)
    with attempted show ?thesis by auto
  qed
qed

lemma facade_write_raised:
  assumes "Engine (Write f) (Some x)
      \<in> set (snd (facade eng types fname A b c u l saveOpt quietOpt))"
  shows "files_written (snd (facade eng types fname A b c u l saveOpt quietOpt)) = []"
proof -
  have "Engine (Write fname) None
      \<notin> set (snd (facade eng types fname A b c u l saveOpt quietOpt))"
  proof (cases rule: facade_cases [where eng = eng and types = types and A = A and b = b
      and c = c and u = u and l = l and fname = fname and saveOpt = saveOpt
      and quietOpt = quietOpt])
    case (build_raised x')
    with build_calls [of "Write fname" None eng types A b c u l] show ?thesis by auto
  next
    case (silence_raised p x')
    with build_calls [of "Write fname" None eng types A b c u l]
      silence_calls [of "Write fname" None eng quietOpt p]
    show ?thesis by auto
  next
    case (attempted p p')
    with assms build_calls [of "Write f" "Some x" eng types A b c u l]
      silence_calls [of "Write f" "Some x" eng quietOpt p]
    have "Engine (Write f) (Some x) \<in> set (snd (attempt eng fname saveOpt p'))"
      by (auto simp: try_handler_events)
    from attempt_write_raised [OF this, of fname] attempted
      build_calls [of "Write fname" None eng types A b c u l]
      silence_calls [of "Write fname" None eng quietOpt p]
    show ?thesis by (auto simp: try_handler_events)
  qed
  then show ?thesis by (simp add: facade_files_written)
qed

lemma facade_persist:
  "(saveOpt \<and> Engine Solve None
        \<in> set (snd (facade eng types fname A b c u l saveOpt quietOpt)) \<longrightarrow>
      (\<exists>t1 ob t2. snd (facade eng types fname A b c u l saveOpt quietOpt) =
         t1 @ Engine Solve None # Engine (Write fname) ob # t2)) \<and>
   (Engine (Write f) ob' \<in> set (snd (facade eng types fname A b c u l saveOpt quietOpt)) \<longrightarrow>
      saveOpt \<and> f = fname) \<and>
   files_written (snd (facade eng types fname A b c u l saveOpt quietOpt)) =
     (if Engine (Write fname) None
        \<in> set (snd (facade eng types fname A b c u l saveOpt quietOpt))
      then [fname] else []) \<and>
   (Engine (Write f) (Some x)
        \<in> set (snd (facade eng types fname A b c u l saveOpt quietOpt)) \<longrightarrow>
      files_written (snd (facade eng types fname A b c u l saveOpt quietOpt)) = [] \<and>
      fst (facade eng types fname A b c u l saveOpt quietOpt) =
        (if is_CplexError x then Inr ([], - 1) else Inl x)) \<and>
   (\<not> saveOpt \<longrightarrow> files_written (snd (facade eng types fname A b c u l saveOpt quietOpt)) = [])"
proof (intro conjI impI)
  assume "saveOpt \<and> Engine Solve None
    \<in> set (snd (facade eng types fname A b c u l saveOpt quietOpt))"
  then show "\<exists>t1 ob t2. snd (facade eng types fname A b c u l saveOpt quietOpt) =
      t1 @ Engine Solve None # Engine (Write fname) ob # t2"
    by (cases saveOpt) (simp_all add: facade_write_follows_solve)
next
  assume w: "Engine (Write f) ob' \<in> set (snd (facade eng types fname A b c u l saveOpt quietOpt))"
  from facade_write_needs_saveOpt [OF w] show saveOpt .
  from facade_calls [OF w] show "f = fname" by simp
next
  show "files_written (snd (facade eng types fname A b c u l saveOpt quietOpt)) =
     (if Engine (Write fname) None
        \<in> set (snd (facade eng types fname A b c u l saveOpt quietOpt))
      then [fname] else [])"
    by (rule facade_files_written)
next
  assume w: "Engine (Write f) (Some x)
    \<in> set (snd (facade eng types fname A b c u l saveOpt quietOpt))"
  from facade_write_raised [OF w]
  show "files_written (snd (facade eng types fname A b c u l saveOpt quietOpt)) = []" .
  from facade_calls [OF w] have "f = fname" by simp
  with facade_raised [OF w]
  show "fst (facade eng types fname A b c u l saveOpt quietOpt) =
      (if is_CplexError x then Inr ([], - 1) else Inl x)"
    by simp
next
  assume "\<not> saveOpt"
  with facade_write_needs_saveOpt [of fname None eng types fname A b c u l saveOpt quietOpt]
  show "files_written (snd (facade eng types fname A b c u l saveOpt quietOpt)) = []"
    by (auto simp: facade_files_written)
qed

lemma facade_no_validation:
  "A \<noteq> [] \<longrightarrow>
     (\<exists>ob t. snd (facade eng types fname A b c u l saveOpt quietOpt) = Engine Cplex_new ob # t) \<and>
     (Engine Cplex_new None \<in> set (snd (facade eng types fname A b c u l saveOpt quietOpt)) \<longrightarrow>
        (\<exists>ob t. snd (facade eng types fname A b c u l saveOpt quietOpt) =
           Engine Cplex_new None # Engine (Set_sense maximize) ob # t)) \<and>
     (Engine (Set_sense maximize) None
          \<in> set (snd (facade eng types fname A b c u l saveOpt quietOpt)) \<longrightarrow>
        (\<exists>ob t. snd (facade eng types fname A b c u l saveOpt quietOpt) =
           Engine Cplex_new None # Engine (Set_sense maximize) None #
           Engine (Variables_add c u l types (colnames (length (hd A)))) ob # t)) \<and>
     (Engine (Variables_add c u l types (colnames (length (hd A)))) None
          \<in> set (snd (facade eng types fname A b c u l saveOpt quietOpt)) \<longrightarrow>
        (\<exists>ob t. snd (facade eng types fname A b c u l saveOpt quietOpt) =
           Engine Cplex_new None # Engine (Set_sense maximize) None #
           Engine (Variables_add c u l types (colnames (length (hd A)))) None #
           Engine (Linear_constraints_add (sparse_rows A (length A) (length (hd A)))
             [replicate (length A) (CHR ''L'')] b) ob # t)) \<and>
     (Engine (Linear_constraints_add rows senses rhs) None
          \<in> set (snd (facade eng types fname A b c u l saveOpt quietOpt)) \<and>
      (quietOpt \<longrightarrow> Engine Set_results_stream_None None
          \<in> set (snd (facade eng types fname A b c u l saveOpt quietOpt))) \<longrightarrow>
        (\<exists>ob. Engine Solve ob \<in> set (snd (facade eng types fname A b c u l saveOpt quietOpt)))) \<and>
     (Engine (Variables_add c' u' l' ty ns) ob'
          \<in> set (snd (facade eng types fname A b c u l saveOpt quietOpt)) \<longrightarrow>
        c' = c \<and> u' = u \<and> l' = l \<and> ty = types \<and> ns = colnames (length (hd A))) \<and>
     (Engine (Linear_constraints_add rows senses rhs) ob'
          \<in> set (snd (facade eng types fname A b c u l saveOpt quietOpt)) \<longrightarrow>
        rows = sparse_rows A (length A) (length (hd A)) \<and> rhs = b) \<and>
     (fst (facade eng types fname A b c u l saveOpt quietOpt) = Inl x \<longrightarrow>
        (\<exists>ca. Engine ca (Some x)
           \<in> set (snd (facade eng types fname A b c u l saveOpt quietOpt)))) \<and>
     (Engine ca' (Some x') \<in> set (snd (facade eng types fname A b c u l saveOpt quietOpt)) \<and>
      builds_model ca' \<longrightarrow>
        fst (facade eng types fname A b c u l saveOpt quietOpt) = Inl x' \<and>
        (\<forall>ob. Engine Solve ob \<notin> set (snd (facade eng types fname A b c u l saveOpt quietOpt))) \<and>
        files_written (snd (facade eng types fname A b c u l saveOpt quietOpt)) = [])"
proof (intro impI conjI allI)
  assume "A \<noteq> []"
  then show "\<exists>ob t. snd (facade eng types fname A b c u l saveOpt quietOpt) = Engine Cplex_new ob # t"
    by (rule facade_first)
next
  assume "Engine Cplex_new None \<in> set (snd (facade eng types fname A b c u l saveOpt quietOpt))"
  with facade_build_order [of eng types fname A b c u l saveOpt quietOpt]
  show "\<exists>ob t. snd (facade eng types fname A b c u l saveOpt quietOpt) =
      Engine Cplex_new None # Engine (Set_sense maximize) ob # t"
    by blast
next
  assume "Engine (Set_sense maximize) None
    \<in> set (snd (facade eng types fname A b c u l saveOpt quietOpt))"
  with facade_build_order [of eng types fname A b c u l saveOpt quietOpt]
  show "\<exists>ob t. snd (facade eng types fname A b c u l saveOpt quietOpt) =
      Engine Cplex_new None # Engine (Set_sense maximize) None #
      Engine (Variables_add c u l types (colnames (length (hd A)))) ob # t"
    by blast
next
  assume "Engine (Variables_add c u l types (colnames (length (hd A)))) None
    \<in> set (snd (facade eng types fname A b c u l saveOpt quietOpt))"
  with facade_build_order [of eng types fname A b c u l saveOpt quietOpt]
  show "\<exists>ob t. snd (facade eng types fname A b c u l saveOpt quietOpt) =
      Engine Cplex_new None # Engine (Set_sense maximize) None #
      Engine (Variables_add c u l types (colnames (length (hd A)))) None #
      Engine (Linear_constraints_add (sparse_rows A (length A) (length (hd A)))
        [replicate (length A) (CHR ''L'')] b) ob # t"
    by blast
next
  assume "Engine (Linear_constraints_add rows senses rhs) None
      \<in> set (snd (facade eng types fname A b c u l saveOpt quietOpt)) \<and>
    (quietOpt \<longrightarrow> Engine Set_results_stream_None None
      \<in> set (snd (facade eng types fname A b c u l saveOpt quietOpt)))"
  then show "\<exists>ob. Engine Solve ob \<in> set (snd (facade eng types fname A b c u l saveOpt quietOpt))"
    using facade_solve_called [of rows senses rhs eng types fname A b c u l saveOpt quietOpt]
    by blast
next
  assume ev: "Engine (Variables_add c' u' l' ty ns) ob'
    \<in> set (snd (facade eng types fname A b c u l saveOpt quietOpt))"
  from facade_calls [OF ev] show "c' = c" "u' = u" "l' = l" "ty = types"
    "ns = colnames (length (hd A))" by simp_all
next
  assume ev: "Engine (Linear_constraints_add rows senses rhs) ob'
    \<in> set (snd (facade eng types fname A b c u l saveOpt quietOpt))"
  from facade_calls [OF ev] show "rows = sparse_rows A (length A) (length (hd A))" "rhs = b"
    by simp_all
next
  assume "A \<noteq> []" and "fst (facade eng types fname A b c u l saveOpt quietOpt) = Inl x"
  then show "\<exists>ca. Engine ca (Some x)
           \<in> set (snd (facade eng types fname A b c u l saveOpt quietOpt))"
    by (rule facade_caused)
next
  assume "Engine ca' (Some x') \<in> set (snd (facade eng types fname A b c u l saveOpt quietOpt)) \<and>
      builds_model ca'"
  then have run: "facade eng types fname A b c u l saveOpt quietOpt =
      (Inl x', snd (build eng types A b c u l))"
    using facade_build_failure by blast
  from run show "fst (facade eng types fname A b c u l saveOpt quietOpt) = Inl x'" by simp
  from run show "files_written (snd (facade eng types fname A b c u l saveOpt quietOpt)) = []"
    by (simp add: files_written_build)
  fix ob
  from run build_calls [of Solve ob eng types A b c u l]
  show "Engine Solve ob \<notin> set (snd (facade eng types fname A b c u l saveOpt quietOpt))"
    by auto
qed

section \<open>The recorded runs, evaluated\<close>

lemmas concrete_defs = scripted_def respond_def no_solution_def same_lengths_def
  consistent_lengths_def
  feasible_run_def feasible_mip_run_def infeasible_run_def checking_run_def
  write_fails_def unwritable_run_def
  notebook_A_def notebook_b_def notebook_c_def notebook_u_def notebook_l_def infeasible_b_def
  colnames_def sparse_rows_def

lemma str_digits: "str 0 = ''0''" "str (Suc 0) = ''1''" "str (Suc (Suc 0)) = ''2''"
  by (simp_all add: str.simps)

lemma upt_small: "[0..<3] = [0, 1, 2]" "[0..<2] = [0, 1]"
  by (simp_all add: upt_rec)

lemma feasible_lprog:
  "lprog feasible_run notebook_A notebook_b notebook_c notebook_u notebook_l True True =
     (Inr ([40, 35 / 2, 85 / 2], 405 / 2),
      [Engine Cplex_new None, Engine (Set_sense maximize) None,
       Engine (Variables_add [1, 2, 3] [40, 10 ^ 20, 10 ^ 20] [0, 0, 0] None
         [''x0'', ''x1'', ''x2'']) None,
       Engine (Linear_constraints_add [([0, 1, 2], [- 1, 1, 1]), ([0, 1, 2], [1, - 3, 1])]
         [''LL''] [20, 30]) None,
       Engine Set_log_stream_None None, Engine Set_error_stream_None None,
       Engine Set_warning_stream_None None, Engine Set_results_stream_None None,
       Engine Solve None, Engine (Write ''lprog.lp'') None, Print ''LP saved as lprog.lp'',
       Engine Get_values None, Engine Get_objective_value None])"
  by (simp add: lprog_def run_defs concrete_defs str_digits upt_small)

lemma feasible_mip:
  "mip feasible_mip_run notebook_A notebook_b notebook_c notebook_u notebook_l ''CCI'' True True =
     (Inr ([40, 18, 42], 202),
      [Engine Cplex_new None, Engine (Set_sense maximize) None,
       Engine (Variables_add [1, 2, 3] [40, 10 ^ 20, 10 ^ 20] [0, 0, 0] (Some ''CCI'')
         [''x0'', ''x1'', ''x2'']) None,
       Engine (Linear_constraints_add [([0, 1, 2], [- 1, 1, 1]), ([0, 1, 2], [1, - 3, 1])]
         [''LL''] [20, 30]) None,
       Engine Set_log_stream_None None, Engine Set_error_stream_None None,
       Engine Set_warning_stream_None None, Engine Set_results_stream_None None,
       Engine Solve None, Engine (Write ''mip.lp'') None, Print ''LP saved as mip.lp'',
       Engine Get_values None, Engine Get_objective_value None])"
  by (simp add: mip_def run_defs concrete_defs str_digits upt_small)

lemma infeasible_lprog:
  "lprog infeasible_run notebook_A infeasible_b notebook_c notebook_u notebook_l True True =
     (Inr ([], - 1),
      [Engine Cplex_new None, Engine (Set_sense maximize) None,
       Engine (Variables_add [1, 2, 3] [40, 10 ^ 20, 10 ^ 20] [0, 0, 0] None
         [''x0'', ''x1'', ''x2'']) None,
       Engine (Linear_constraints_add [([0, 1, 2], [- 1, 1, 1]), ([0, 1, 2], [1, - 3, 1])]
         [''LL''] [- 99999, - 999999]) None,
       Engine Set_log_stream_None None, Engine Set_error_stream_None None,
       Engine Set_warning_stream_None None, Engine Set_results_stream_None None,
       Engine Solve None, Engine (Write ''lprog.lp'') None, Print ''LP saved as lprog.lp'',
       Engine Get_values (Some (CplexError ''CPLEX Error  1217: No solution exists.'')),
       Print ''CPLEX Error  1217: No solution exists.''])"
  by (simp add: lprog_def run_defs concrete_defs str_digits upt_small)

lemma infeasible_mip:
  "mip infeasible_run notebook_A infeasible_b notebook_c notebook_u notebook_l ''CCI'' True True =
     (Inr ([], - 1),
      [Engine Cplex_new None, Engine (Set_sense maximize) None,
       Engine (Variables_add [1, 2, 3] [40, 10 ^ 20, 10 ^ 20] [0, 0, 0] (Some ''CCI'')
         [''x0'', ''x1'', ''x2'']) None,
       Engine (Linear_constraints_add [([0, 1, 2], [- 1, 1, 1]), ([0, 1, 2], [1, - 3, 1])]
         [''LL''] [- 99999, - 999999]) None,
       Engine Set_log_stream_None None, Engine Set_error_stream_None None,
       Engine Set_warning_stream_None None, Engine Set_results_stream_None None,
       Engine Solve None, Engine (Write ''mip.lp'') None, Print ''LP saved as mip.lp'',
       Engine Get_values (Some (CplexError ''CPLEX Error  1217: No solution exists.'')),
       Print ''CPLEX Error  1217: No solution exists.''])"
  by (simp add: mip_def run_defs concrete_defs str_digits upt_small)

text \<open>
  Two calls with mismatched arguments, on the engine that checks lengths: an objective
  vector of two entries for three columns, and two type tags for three columns.
\<close>

lemma short_objective_lprog:
  "lprog checking_run notebook_A notebook_b [1, 2] notebook_u notebook_l True True =
     (Inl (CplexError ''inconsistent arguments''),
      [Engine Cplex_new None, Engine (Set_sense maximize) None,
       Engine (Variables_add [1, 2] [40, 10 ^ 20, 10 ^ 20] [0, 0, 0] None
         [''x0'', ''x1'', ''x2'']) (Some (CplexError ''inconsistent arguments''))])"
  by (simp add: lprog_def run_defs concrete_defs str_digits upt_small)

lemma short_objective_mip:
  "mip checking_run notebook_A notebook_b [1, 2] notebook_u notebook_l ''CCI'' True True =
     (Inl (CplexError ''inconsistent arguments''),
      [Engine Cplex_new None, Engine (Set_sense maximize) None,
       Engine (Variables_add [1, 2] [40, 10 ^ 20, 10 ^ 20] [0, 0, 0] (Some ''CCI'')
         [''x0'', ''x1'', ''x2'']) (Some (CplexError ''inconsistent arguments''))])"
  by (simp add: mip_def run_defs concrete_defs str_digits upt_small)

lemma short_types_mip:
  "mip checking_run notebook_A notebook_b notebook_c notebook_u notebook_l ''CC'' True True =
     (Inl (CplexError ''inconsistent arguments''),
      [Engine Cplex_new None, Engine (Set_sense maximize) None,
       Engine (Variables_add [1, 2, 3] [40, 10 ^ 20, 10 ^ 20] [0, 0, 0] (Some ''CC'')
         [''x0'', ''x1'', ''x2'']) (Some (CplexError ''inconsistent arguments''))])"
  by (simp add: mip_def run_defs concrete_defs str_digits upt_small)

text \<open>
  The notebook's problem on the engine whose \<^verbatim>\<open>write\<close> raises, and with an empty vector
  of lower bounds on the engine that checks lengths.
\<close>

lemma unwritable_lprog:
  "lprog unwritable_run notebook_A notebook_b notebook_c notebook_u notebook_l True True =
     (Inr ([], - 1),
      [Engine Cplex_new None, Engine (Set_sense maximize) None,
       Engine (Variables_add [1, 2, 3] [40, 10 ^ 20, 10 ^ 20] [0, 0, 0] None
         [''x0'', ''x1'', ''x2'']) None,
       Engine (Linear_constraints_add [([0, 1, 2], [- 1, 1, 1]), ([0, 1, 2], [1, - 3, 1])]
         [''LL''] [20, 30]) None,
       Engine Set_log_stream_None None, Engine Set_error_stream_None None,
       Engine Set_warning_stream_None None, Engine Set_results_stream_None None,
       Engine Solve None,
       Engine (Write ''lprog.lp'')
         (Some (CplexError ''CPLEX Error  1422: Could not open file for writing.'')),
       Print ''CPLEX Error  1422: Could not open file for writing.''])"
  by (simp add: lprog_def run_defs concrete_defs str_digits upt_small)

lemma unwritable_mip:
  "mip unwritable_run notebook_A notebook_b notebook_c notebook_u notebook_l ''CCI'' True True =
     (Inr ([], - 1),
      [Engine Cplex_new None, Engine (Set_sense maximize) None,
       Engine (Variables_add [1, 2, 3] [40, 10 ^ 20, 10 ^ 20] [0, 0, 0] (Some ''CCI'')
         [''x0'', ''x1'', ''x2'']) None,
       Engine (Linear_constraints_add [([0, 1, 2], [- 1, 1, 1]), ([0, 1, 2], [1, - 3, 1])]
         [''LL''] [20, 30]) None,
       Engine Set_log_stream_None None, Engine Set_error_stream_None None,
       Engine Set_warning_stream_None None, Engine Set_results_stream_None None,
       Engine Solve None,
       Engine (Write ''mip.lp'')
         (Some (CplexError ''CPLEX Error  1422: Could not open file for writing.'')),
       Print ''CPLEX Error  1422: Could not open file for writing.''])"
  by (simp add: mip_def run_defs concrete_defs str_digits upt_small)

lemma no_lower_bounds_lprog:
  "lprog checking_run notebook_A notebook_b notebook_c notebook_u [] True True =
     (Inr ([40, 35 / 2, 85 / 2], 405 / 2),
      [Engine Cplex_new None, Engine (Set_sense maximize) None,
       Engine (Variables_add [1, 2, 3] [40, 10 ^ 20, 10 ^ 20] [] None
         [''x0'', ''x1'', ''x2'']) None,
       Engine (Linear_constraints_add [([0, 1, 2], [- 1, 1, 1]), ([0, 1, 2], [1, - 3, 1])]
         [''LL''] [20, 30]) None,
       Engine Set_log_stream_None None, Engine Set_error_stream_None None,
       Engine Set_warning_stream_None None, Engine Set_results_stream_None None,
       Engine Solve None, Engine (Write ''lprog.lp'') None, Print ''LP saved as lprog.lp'',
       Engine Get_values None, Engine Get_objective_value None])"
  by (simp add: lprog_def run_defs concrete_defs str_digits upt_small)

section \<open>An empty matrix\<close>

text \<open>
  C10. With a coefficient matrix of zero rows, both facades raise \<open>IndexError\<close> from
  \<^verbatim>\<open>len(A[0])\<close>, the first statement of the body. The exception reaches the caller, and
  nothing has happened before it: no engine call and no output.
\<close>

theorem empty_matrix_IndexError:
  "lprog eng [] b c u l saveOpt quietOpt = (Inl IndexError, []) \<and>
   mip eng [] b c u l varType saveOpt quietOpt = (Inl IndexError, [])"
  by (simp add: lprog_def mip_def dims_def raises_def and_then_def)

section \<open>Which exceptions are caught\<close>

text \<open>
  C9. Whenever a call of an engine method raises an exception \<open>x\<close> during a run of either
  facade, the run ends in one of two ways. If \<open>x\<close> is of the class \<open>CplexError\<close> and the call
  is one of the statements inside the \<^verbatim>\<open>try\<close> (\<^verbatim>\<open>solve\<close>, \<^verbatim>\<open>write\<close>, reading the values,
  reading the objective), the facade returns the pair of the empty list and \<open>-1\<close>. In every
  other case \<open>x\<close> itself reaches the caller: an exception of any other class wherever it is
  raised, and also a \<open>CplexError\<close> raised while the model is built or the streams are
  silenced, since those statements stand outside the \<^verbatim>\<open>try\<close>.
\<close>

theorem only_CplexError_is_caught:
  "(Engine ca (Some x) \<in> set (snd (lprog eng A b c u l saveOpt quietOpt)) \<longrightarrow>
      fst (lprog eng A b c u l saveOpt quietOpt) =
        (if is_CplexError x \<and> ca \<in> {Solve, Write ''lprog.lp'', Get_values, Get_objective_value}
         then Inr ([], - 1) else Inl x)) \<and>
   (Engine ca (Some x) \<in> set (snd (mip eng A b c u l varType saveOpt quietOpt)) \<longrightarrow>
      fst (mip eng A b c u l varType saveOpt quietOpt) =
        (if is_CplexError x \<and> ca \<in> {Solve, Write ''mip.lp'', Get_values, Get_objective_value}
         then Inr ([], - 1) else Inl x))"
  unfolding lprog_facade mip_facade by (intro conjI impI facade_raised)

theorem only_CplexError_is_caught_witness:
  "Engine Get_values (Some (CplexError ''CPLEX Error  1217: No solution exists.''))
     \<in> set (snd (lprog infeasible_run notebook_A infeasible_b notebook_c notebook_u notebook_l
          True True)) \<and>
   fst (lprog infeasible_run notebook_A infeasible_b notebook_c notebook_u notebook_l True True) =
     Inr ([], - 1) \<and>
   Engine (Variables_add [1, 2] [40, 10 ^ 20, 10 ^ 20] [0, 0, 0] (Some ''CCI'')
       [''x0'', ''x1'', ''x2'']) (Some (CplexError ''inconsistent arguments''))
     \<in> set (snd (mip checking_run notebook_A notebook_b [1, 2] notebook_u notebook_l ''CCI''
          True True)) \<and>
   fst (mip checking_run notebook_A notebook_b [1, 2] notebook_u notebook_l ''CCI'' True True) =
     Inl (CplexError ''inconsistent arguments'')"
  using only_CplexError_is_caught [where ca = Get_values
      and x = "CplexError ''CPLEX Error  1217: No solution exists.''" and eng = infeasible_run
      and A = notebook_A and b = infeasible_b and c = notebook_c and u = notebook_u
      and l = notebook_l and saveOpt = True and quietOpt = True]
    only_CplexError_is_caught [where ca = "Variables_add [1, 2] [40, 10 ^ 20, 10 ^ 20] [0, 0, 0]
        (Some ''CCI'') [''x0'', ''x1'', ''x2'']"
      and x = "CplexError ''inconsistent arguments''" and eng = checking_run
      and A = notebook_A and b = notebook_b and c = "[1, 2]" and u = notebook_u
      and l = notebook_l and varType = "''CCI''" and saveOpt = True and quietOpt = True]
  by (simp add: infeasible_lprog short_objective_mip)

section \<open>An infeasible model\<close>

text \<open>
  C2. The engine makes an infeasible model known by raising a \<open>CplexError\<close>, from \<^verbatim>\<open>solve\<close>
  or, as in the run the notebooks record, from the solution accessors once \<^verbatim>\<open>solve\<close> has
  returned. In every run of either facade in which that happens, the facade raises nothing:
  it returns exactly the pair of the empty list and \<open>-1\<close>, and the last thing it does is print
  the engine's message.
\<close>

theorem infeasible_returns_sentinel:
  "(Engine Solve (Some (CplexError s)) \<in> set (snd (lprog eng A b c u l saveOpt quietOpt)) \<or>
    Engine Get_values (Some (CplexError s)) \<in> set (snd (lprog eng A b c u l saveOpt quietOpt)) \<or>
    Engine Get_objective_value (Some (CplexError s))
      \<in> set (snd (lprog eng A b c u l saveOpt quietOpt)) \<longrightarrow>
    fst (lprog eng A b c u l saveOpt quietOpt) = Inr ([], - 1) \<and>
    last (snd (lprog eng A b c u l saveOpt quietOpt)) = Print s) \<and>
   (Engine Solve (Some (CplexError s)) \<in> set (snd (mip eng A b c u l varType saveOpt quietOpt)) \<or>
    Engine Get_values (Some (CplexError s))
      \<in> set (snd (mip eng A b c u l varType saveOpt quietOpt)) \<or>
    Engine Get_objective_value (Some (CplexError s))
      \<in> set (snd (mip eng A b c u l varType saveOpt quietOpt)) \<longrightarrow>
    fst (mip eng A b c u l varType saveOpt quietOpt) = Inr ([], - 1) \<and>
    last (snd (mip eng A b c u l varType saveOpt quietOpt)) = Print s)"
proof -
  have "fst (facade eng types fname A b c u l saveOpt quietOpt) = Inr ([], - 1) \<and>
        last (snd (facade eng types fname A b c u l saveOpt quietOpt)) = Print s"
    if "ca \<in> {Solve, Get_values, Get_objective_value}"
      and "Engine ca (Some (CplexError s))
             \<in> set (snd (facade eng types fname A b c u l saveOpt quietOpt))"
    for ca types fname
    using that facade_raised [OF that(2)] facade_caught_last [OF that(2) that(1)] by auto
  from this [of Solve] this [of Get_values] this [of Get_objective_value]
  show ?thesis unfolding lprog_facade mip_facade by blast
qed

theorem infeasible_returns_sentinel_witness:
  "Engine Get_values (Some (CplexError ''CPLEX Error  1217: No solution exists.''))
     \<in> set (snd (lprog infeasible_run notebook_A infeasible_b notebook_c notebook_u notebook_l
          True True)) \<and>
   fst (lprog infeasible_run notebook_A infeasible_b notebook_c notebook_u notebook_l True True) =
     Inr ([], - 1) \<and>
   last (snd (lprog infeasible_run notebook_A infeasible_b notebook_c notebook_u notebook_l
     True True)) = Print ''CPLEX Error  1217: No solution exists.'' \<and>
   Engine Get_values (Some (CplexError ''CPLEX Error  1217: No solution exists.''))
     \<in> set (snd (mip infeasible_run notebook_A infeasible_b notebook_c notebook_u notebook_l
          ''CCI'' True True)) \<and>
   fst (mip infeasible_run notebook_A infeasible_b notebook_c notebook_u notebook_l ''CCI''
     True True) = Inr ([], - 1) \<and>
   last (snd (mip infeasible_run notebook_A infeasible_b notebook_c notebook_u notebook_l ''CCI''
     True True)) = Print ''CPLEX Error  1217: No solution exists.''"
  using infeasible_returns_sentinel [where s = "''CPLEX Error  1217: No solution exists.''"
      and eng = infeasible_run and A = notebook_A and b = infeasible_b and c = notebook_c
      and u = notebook_u and l = notebook_l and varType = "''CCI''" and saveOpt = True
      and quietOpt = True]
  by (simp add: infeasible_lprog infeasible_mip)

section \<open>The quiet flag\<close>

text \<open>
  C7. On an engine whose four stream setters are a matter of output only (they do not
  raise, and they leave alone the part of the engine state that \<^verbatim>\<open>solve\<close>, \<^verbatim>\<open>write\<close> and the
  solution accessors depend on), two runs of the same facade on the same input that differ
  only in \<open>quietOpt\<close> have the same outcome: the same returned pair, or the same exception.
  The facades themselves use \<open>quietOpt\<close> for nothing but the four setter calls.
\<close>

theorem quiet_flag_keeps_outcome:
  "presentation_only eng core \<Longrightarrow>
     fst (lprog eng A b c u l saveOpt True) = fst (lprog eng A b c u l saveOpt False) \<and>
     fst (mip eng A b c u l varType saveOpt True) = fst (mip eng A b c u l varType saveOpt False)"
  unfolding lprog_facade mip_facade by (simp add: facade_quiet)

theorem quiet_flag_keeps_outcome_witness:
  "presentation_only feasible_run solver_calls \<and>
   fst (lprog feasible_run notebook_A notebook_b notebook_c notebook_u notebook_l True False) =
     Inr ([40, 35 / 2, 85 / 2], 405 / 2) \<and>
   fst (mip feasible_run notebook_A notebook_b notebook_c notebook_u notebook_l ''CCI'' True True) =
   fst (mip feasible_run notebook_A notebook_b notebook_c notebook_u notebook_l ''CCI'' True False)"
proof -
  have po: "presentation_only feasible_run solver_calls"
    unfolding feasible_run_def by (rule scripted_presentation_only)
  from quiet_flag_keeps_outcome [OF po, of notebook_A notebook_b notebook_c notebook_u
      notebook_l True "''CCI''"] po
  show ?thesis by (simp add: feasible_lprog)
qed

section \<open>Objective sense and constraint senses\<close>

text \<open>
  C6. In every run of either facade, whatever the input: the only objective sense ever set
  on the engine is \<open>maximize\<close>; the only \<^verbatim>\<open>senses\<close> argument ever passed to
  \<^verbatim>\<open>linear_constraints.add\<close> is the list holding the one string of \<open>R\<close> letters \<open>L\<close>, where \<open>R\<close>
  is the number of rows of the matrix, passed together with exactly \<open>R\<close> rows; so each of the
  \<open>R\<close> constraints has the sense \<open>L\<close> (less than or equal), and no other letter occurs. And
  whenever the engine is asked to solve, both calls have been made and have returned.
\<close>

theorem always_maximize_and_less_equal:
  "((Engine (Set_sense s) ob \<in> set (snd (lprog eng A b c u l saveOpt quietOpt)) \<longrightarrow>
       s = maximize) \<and>
    (Engine (Linear_constraints_add rows senses rhs) ob
        \<in> set (snd (lprog eng A b c u l saveOpt quietOpt)) \<longrightarrow>
       senses = [replicate (length A) (CHR ''L'')] \<and> length rows = length A \<and>
       length (concat senses) = length rows \<and> set (concat senses) \<subseteq> {CHR ''L''}) \<and>
    (Engine Solve ob \<in> set (snd (lprog eng A b c u l saveOpt quietOpt)) \<longrightarrow>
       Engine (Set_sense maximize) None \<in> set (snd (lprog eng A b c u l saveOpt quietOpt)) \<and>
       Engine (Linear_constraints_add (sparse_rows A (length A) (length (hd A)))
           [replicate (length A) (CHR ''L'')] b) None
         \<in> set (snd (lprog eng A b c u l saveOpt quietOpt)))) \<and>
   ((Engine (Set_sense s) ob \<in> set (snd (mip eng A b c u l varType saveOpt quietOpt)) \<longrightarrow>
       s = maximize) \<and>
    (Engine (Linear_constraints_add rows senses rhs) ob
        \<in> set (snd (mip eng A b c u l varType saveOpt quietOpt)) \<longrightarrow>
       senses = [replicate (length A) (CHR ''L'')] \<and> length rows = length A \<and>
       length (concat senses) = length rows \<and> set (concat senses) \<subseteq> {CHR ''L''}) \<and>
    (Engine Solve ob \<in> set (snd (mip eng A b c u l varType saveOpt quietOpt)) \<longrightarrow>
       Engine (Set_sense maximize) None
         \<in> set (snd (mip eng A b c u l varType saveOpt quietOpt)) \<and>
       Engine (Linear_constraints_add (sparse_rows A (length A) (length (hd A)))
           [replicate (length A) (CHR ''L'')] b) None
         \<in> set (snd (mip eng A b c u l varType saveOpt quietOpt))))"
proof -
  have "(Engine (Set_sense s) ob \<in> set (snd (facade eng types fname A b c u l saveOpt quietOpt))
          \<longrightarrow> s = maximize) \<and>
    (Engine (Linear_constraints_add rows senses rhs) ob
        \<in> set (snd (facade eng types fname A b c u l saveOpt quietOpt)) \<longrightarrow>
       senses = [replicate (length A) (CHR ''L'')] \<and> length rows = length A \<and>
       length (concat senses) = length rows \<and> set (concat senses) \<subseteq> {CHR ''L''}) \<and>
    (Engine Solve ob \<in> set (snd (facade eng types fname A b c u l saveOpt quietOpt)) \<longrightarrow>
       Engine (Set_sense maximize) None
         \<in> set (snd (facade eng types fname A b c u l saveOpt quietOpt)) \<and>
       Engine (Linear_constraints_add (sparse_rows A (length A) (length (hd A)))
           [replicate (length A) (CHR ''L'')] b) None
         \<in> set (snd (facade eng types fname A b c u l saveOpt quietOpt)))" for types fname
  proof (intro conjI impI)
    assume "Engine (Set_sense s) ob \<in> set (snd (facade eng types fname A b c u l saveOpt quietOpt))"
    from facade_calls [OF this] show "s = maximize" by simp
  next
    assume "Engine (Linear_constraints_add rows senses rhs) ob
        \<in> set (snd (facade eng types fname A b c u l saveOpt quietOpt))"
    from facade_calls [OF this]
    have *: "rows = sparse_rows A (length A) (length (hd A))"
      "senses = [replicate (length A) (CHR ''L'')]" by simp_all
    from * show "senses = [replicate (length A) (CHR ''L'')]" by simp
    from * show "length rows = length A" by (simp add: length_sparse_rows)
    from * show "length (concat senses) = length rows" by (simp add: length_sparse_rows)
    from * show "set (concat senses) \<subseteq> {CHR ''L''}" by auto
  next
    assume ev: "Engine Solve ob \<in> set (snd (facade eng types fname A b c u l saveOpt quietOpt))"
    from facade_model_handed_over [OF ev]
    show "Engine (Set_sense maximize) None
         \<in> set (snd (facade eng types fname A b c u l saveOpt quietOpt))"
      and "Engine (Linear_constraints_add (sparse_rows A (length A) (length (hd A)))
           [replicate (length A) (CHR ''L'')] b) None
         \<in> set (snd (facade eng types fname A b c u l saveOpt quietOpt))"
      by simp_all
  qed
  from this [of None "''lprog.lp''"] this [of "Some varType" "''mip.lp''"]
  show ?thesis unfolding lprog_facade mip_facade by (rule conjI)
qed

theorem always_maximize_and_less_equal_witness:
  "(Engine Solve None
      \<in> set (snd (lprog feasible_run notebook_A notebook_b notebook_c notebook_u notebook_l
           True True)) \<and>
    Engine (Set_sense maximize) None
      \<in> set (snd (lprog feasible_run notebook_A notebook_b notebook_c notebook_u notebook_l
           True True)) \<and>
    Engine (Linear_constraints_add
        (sparse_rows notebook_A (length notebook_A) (length (hd notebook_A)))
        [replicate (length notebook_A) (CHR ''L'')] notebook_b) None
      \<in> set (snd (lprog feasible_run notebook_A notebook_b notebook_c notebook_u notebook_l
           True True))) \<and>
   (Engine Solve None
      \<in> set (snd (mip feasible_mip_run notebook_A notebook_b notebook_c notebook_u notebook_l
           ''CCI'' True True)) \<and>
    Engine (Set_sense maximize) None
      \<in> set (snd (mip feasible_mip_run notebook_A notebook_b notebook_c notebook_u notebook_l
           ''CCI'' True True)) \<and>
    Engine (Linear_constraints_add
        (sparse_rows notebook_A (length notebook_A) (length (hd notebook_A)))
        [replicate (length notebook_A) (CHR ''L'')] notebook_b) None
      \<in> set (snd (mip feasible_mip_run notebook_A notebook_b notebook_c notebook_u notebook_l
           ''CCI'' True True))) \<and>
   [replicate (length notebook_A) (CHR ''L'')] = [''LL'']"
proof -
  have lp: "Engine Solve None
      \<in> set (snd (lprog feasible_run notebook_A notebook_b notebook_c notebook_u notebook_l
           True True))"
    by (simp add: feasible_lprog)
  have mi: "Engine Solve None
      \<in> set (snd (mip feasible_mip_run notebook_A notebook_b notebook_c notebook_u notebook_l
           ''CCI'' True True))"
    by (simp add: feasible_mip)
  have letters: "[replicate (length notebook_A) (CHR ''L'')] = [''LL'']"
    by (simp add: notebook_A_def)
  note lp_model = always_maximize_and_less_equal [where eng = feasible_run and A = notebook_A
      and b = notebook_b and c = notebook_c and u = notebook_u and l = notebook_l
      and saveOpt = True and quietOpt = True and ob = None,
      THEN conjunct1, THEN conjunct2, THEN conjunct2, THEN mp, OF lp]
  note mi_model = always_maximize_and_less_equal [where eng = feasible_mip_run
      and A = notebook_A and b = notebook_b and c = notebook_c and u = notebook_u
      and l = notebook_l and varType = "''CCI''" and saveOpt = True and quietOpt = True
      and ob = None, THEN conjunct2, THEN conjunct2, THEN conjunct2, THEN mp, OF mi]
  from lp lp_model mi mi_model letters show ?thesis by blast
qed

section \<open>From the dense matrix to sparse rows\<close>

text \<open>
  C5. For a matrix of \<open>R\<close> rows (at least one) that all have the length \<open>C\<close> of the first, the
  translation inside each facade produces exactly \<open>R\<close> coefficient lists. The \<open>j\<close>-th is the
  pair of the column indices \<open>0, \<dots>, C - 1\<close> in order and row \<open>j\<close> of the matrix unchanged:
  pairing them position by position gives, for every column \<open>i\<close>, the entry \<open>(i, A[j][i])\<close>,
  so exactly \<open>C\<close> pairs, zero coefficients included. These lists, and no others, are what
  either facade passes to \<^verbatim>\<open>linear_constraints.add\<close>.
\<close>

theorem dense_matrix_to_sparse_rows:
  assumes "A \<noteq> []" and "\<forall>row \<in> set A. length row = length (hd A)"
  shows "length (sparse_rows A (length A) (length (hd A))) = length A \<and>
    (\<forall>j < length A.
       (case sparse_rows A (length A) (length (hd A)) ! j of
          (ind, val) \<Rightarrow>
            ind = [0..<length (hd A)] \<and> val = A ! j \<and>
            zip ind val = map (\<lambda>i. (i, A ! j ! i)) [0..<length (hd A)] \<and>
            length (zip ind val) = length (hd A))) \<and>
    (Engine (Linear_constraints_add rows senses rhs) ob
        \<in> set (snd (lprog eng A b c u l saveOpt quietOpt)) \<longrightarrow>
       rows = sparse_rows A (length A) (length (hd A))) \<and>
    (Engine (Linear_constraints_add rows senses rhs) ob
        \<in> set (snd (mip eng A b c u l varType saveOpt quietOpt)) \<longrightarrow>
       rows = sparse_rows A (length A) (length (hd A)))"
proof (intro conjI allI impI)
  show "length (sparse_rows A (length A) (length (hd A))) = length A"
    by (rule length_sparse_rows)
next
  fix j assume j: "j < length A"
  with assms(2) have len: "length (A ! j) = length (hd A)" by simp
  from zip_indices [of "A ! j"] len
  have "zip [0..<length (hd A)] (A ! j) = map (\<lambda>i. (i, A ! j ! i)) [0..<length (hd A)]"
    by simp
  with j len
  show "case sparse_rows A (length A) (length (hd A)) ! j of
          (ind, val) \<Rightarrow>
            ind = [0..<length (hd A)] \<and> val = A ! j \<and>
            zip ind val = map (\<lambda>i. (i, A ! j ! i)) [0..<length (hd A)] \<and>
            length (zip ind val) = length (hd A)"
    by (simp add: nth_sparse_rows)
next
  assume "Engine (Linear_constraints_add rows senses rhs) ob
        \<in> set (snd (lprog eng A b c u l saveOpt quietOpt))"
  from facade_calls [OF this [unfolded lprog_facade]]
  show "rows = sparse_rows A (length A) (length (hd A))" by simp
next
  assume "Engine (Linear_constraints_add rows senses rhs) ob
        \<in> set (snd (mip eng A b c u l varType saveOpt quietOpt))"
  from facade_calls [OF this [unfolded mip_facade]]
  show "rows = sparse_rows A (length A) (length (hd A))" by simp
qed

theorem dense_matrix_to_sparse_rows_witness:
  "notebook_A \<noteq> [] \<and>
   length (sparse_rows notebook_A (length notebook_A) (length (hd notebook_A))) =
     length notebook_A \<and>
   (case sparse_rows notebook_A (length notebook_A) (length (hd notebook_A)) ! 0 of
      (ind, val) \<Rightarrow>
        ind = [0..<length (hd notebook_A)] \<and> val = notebook_A ! 0 \<and>
        zip ind val = map (\<lambda>i. (i, notebook_A ! 0 ! i)) [0..<length (hd notebook_A)] \<and>
        length (zip ind val) = length (hd notebook_A)) \<and>
   sparse_rows notebook_A (length notebook_A) (length (hd notebook_A)) =
     [([0, 1, 2], [- 1, 1, 1]), ([0, 1, 2], [1, - 3, 1])] \<and>
   zip [0, 1, 2 :: nat] [- 1, 1, 1 :: real] = [(0, - 1), (1, 1), (2, 1)]"
proof -
  have shape: "notebook_A \<noteq> []" "\<forall>row \<in> set notebook_A. length row = length (hd notebook_A)"
    by (simp_all add: notebook_A_def)
  have first: "0 < length notebook_A"
    by (simp add: notebook_A_def)
  note translated = dense_matrix_to_sparse_rows [OF shape]
  note len = translated [THEN conjunct1]
  note row0 = translated [THEN conjunct2, THEN conjunct1, rule_format, OF first]
  have concrete: "sparse_rows notebook_A (length notebook_A) (length (hd notebook_A)) =
     [([0, 1, 2], [- 1, 1, 1]), ([0, 1, 2], [1, - 3, 1])]"
    by (simp add: notebook_A_def sparse_rows_def upt_small upt_rec)
  have pairs: "zip [0, 1, 2 :: nat] [- 1, 1, 1 :: real] = [(0, - 1), (1, 1), (2, 1)]"
    by simp
  from shape(1) len row0 concrete pairs show ?thesis by blast
qed

section \<open>Writing the model file\<close>

text \<open>
  C3, as the specification states it, fails: it promises the file whenever \<open>saveOpt\<close> is set
  and \<^verbatim>\<open>solve\<close> has returned, but the engine's \<^verbatim>\<open>write\<close> is itself inside the \<^verbatim>\<open>try\<close>. On the
  notebook's problem, run on the engine whose \<^verbatim>\<open>write\<close> raises, \<^verbatim>\<open>solve\<close> returns, no file is
  written, and \<^verbatim>\<open>lprog\<close> returns the pair of the empty list and \<open>-1\<close>.
\<close>

theorem model_file_not_written_counterexample:
  "lprog unwritable_run notebook_A notebook_b notebook_c notebook_u notebook_l True True =
     (Inr ([], - 1),
      [Engine Cplex_new None, Engine (Set_sense maximize) None,
       Engine (Variables_add [1, 2, 3] [40, 10 ^ 20, 10 ^ 20] [0, 0, 0] None
         [''x0'', ''x1'', ''x2'']) None,
       Engine (Linear_constraints_add [([0, 1, 2], [- 1, 1, 1]), ([0, 1, 2], [1, - 3, 1])]
         [''LL''] [20, 30]) None,
       Engine Set_log_stream_None None, Engine Set_error_stream_None None,
       Engine Set_warning_stream_None None, Engine Set_results_stream_None None,
       Engine Solve None,
       Engine (Write ''lprog.lp'')
         (Some (CplexError ''CPLEX Error  1422: Could not open file for writing.'')),
       Print ''CPLEX Error  1422: Could not open file for writing.'']) \<and>
   files_written (snd (lprog unwritable_run notebook_A notebook_b notebook_c notebook_u
     notebook_l True True)) = []"
  by (simp add: unwritable_lprog)

text \<open>
  C3, amended. In every run of either facade with \<open>saveOpt\<close> set in which the engine's
  \<^verbatim>\<open>solve\<close> returns without raising, the very next event is the call of the engine's \<^verbatim>\<open>write\<close>
  with the fixed name of the facade (\<^verbatim>\<open>lprog.lp\<close>, \<^verbatim>\<open>mip.lp\<close>): before the solution is read,
  and so before the run can tell success from failure. No other name is ever written, and
  \<^verbatim>\<open>write\<close> is not called unless \<open>saveOpt\<close> is set. The file is written exactly when that call
  returns without raising, whatever the run returns afterwards. If the call raises, no file
  is written, and the run returns the pair of the empty list and \<open>-1\<close> for a \<open>CplexError\<close>
  and passes any other exception on to the caller. With \<open>saveOpt\<close> unset no file is written.
\<close>

theorem model_file_written_when_write_returns:
  "((saveOpt \<and> Engine Solve None \<in> set (snd (lprog eng A b c u l saveOpt quietOpt)) \<longrightarrow>
       (\<exists>t1 ob t2. snd (lprog eng A b c u l saveOpt quietOpt) =
          t1 @ Engine Solve None # Engine (Write ''lprog.lp'') ob # t2)) \<and>
    (Engine (Write f) ob' \<in> set (snd (lprog eng A b c u l saveOpt quietOpt)) \<longrightarrow>
       saveOpt \<and> f = ''lprog.lp'') \<and>
    files_written (snd (lprog eng A b c u l saveOpt quietOpt)) =
      (if Engine (Write ''lprog.lp'') None \<in> set (snd (lprog eng A b c u l saveOpt quietOpt))
       then [''lprog.lp''] else []) \<and>
    (Engine (Write f) (Some x) \<in> set (snd (lprog eng A b c u l saveOpt quietOpt)) \<longrightarrow>
       files_written (snd (lprog eng A b c u l saveOpt quietOpt)) = [] \<and>
       fst (lprog eng A b c u l saveOpt quietOpt) =
         (if is_CplexError x then Inr ([], - 1) else Inl x)) \<and>
    (\<not> saveOpt \<longrightarrow> files_written (snd (lprog eng A b c u l saveOpt quietOpt)) = [])) \<and>
   ((saveOpt \<and> Engine Solve None \<in> set (snd (mip eng A b c u l varType saveOpt quietOpt)) \<longrightarrow>
       (\<exists>t1 ob t2. snd (mip eng A b c u l varType saveOpt quietOpt) =
          t1 @ Engine Solve None # Engine (Write ''mip.lp'') ob # t2)) \<and>
    (Engine (Write f) ob' \<in> set (snd (mip eng A b c u l varType saveOpt quietOpt)) \<longrightarrow>
       saveOpt \<and> f = ''mip.lp'') \<and>
    files_written (snd (mip eng A b c u l varType saveOpt quietOpt)) =
      (if Engine (Write ''mip.lp'') None \<in> set (snd (mip eng A b c u l varType saveOpt quietOpt))
       then [''mip.lp''] else []) \<and>
    (Engine (Write f) (Some x) \<in> set (snd (mip eng A b c u l varType saveOpt quietOpt)) \<longrightarrow>
       files_written (snd (mip eng A b c u l varType saveOpt quietOpt)) = [] \<and>
       fst (mip eng A b c u l varType saveOpt quietOpt) =
         (if is_CplexError x then Inr ([], - 1) else Inl x)) \<and>
    (\<not> saveOpt \<longrightarrow> files_written (snd (mip eng A b c u l varType saveOpt quietOpt)) = []))"
  unfolding lprog_facade mip_facade by (rule conjI [OF facade_persist facade_persist])

theorem model_file_written_when_write_returns_witness:
  "(Engine Solve None \<in> set (snd (lprog infeasible_run notebook_A infeasible_b notebook_c
      notebook_u notebook_l True True)) \<and>
    fst (lprog infeasible_run notebook_A infeasible_b notebook_c notebook_u notebook_l
      True True) = Inr ([], - 1) \<and>
    files_written (snd (lprog infeasible_run notebook_A infeasible_b notebook_c notebook_u
      notebook_l True True)) = [''lprog.lp''] \<and>
    (\<exists>t1 ob t2. snd (lprog infeasible_run notebook_A infeasible_b notebook_c notebook_u
       notebook_l True True) = t1 @ Engine Solve None # Engine (Write ''lprog.lp'') ob # t2)) \<and>
   (Engine Solve None \<in> set (snd (mip infeasible_run notebook_A infeasible_b notebook_c
      notebook_u notebook_l ''CCI'' True True)) \<and>
    fst (mip infeasible_run notebook_A infeasible_b notebook_c notebook_u notebook_l ''CCI''
      True True) = Inr ([], - 1) \<and>
    files_written (snd (mip infeasible_run notebook_A infeasible_b notebook_c notebook_u
      notebook_l ''CCI'' True True)) = [''mip.lp''] \<and>
    (\<exists>t1 ob t2. snd (mip infeasible_run notebook_A infeasible_b notebook_c notebook_u
       notebook_l ''CCI'' True True) =
         t1 @ Engine Solve None # Engine (Write ''mip.lp'') ob # t2)) \<and>
   (Engine (Write ''lprog.lp'')
       (Some (CplexError ''CPLEX Error  1422: Could not open file for writing.''))
      \<in> set (snd (lprog unwritable_run notebook_A notebook_b notebook_c notebook_u notebook_l
           True True)) \<and>
    files_written (snd (lprog unwritable_run notebook_A notebook_b notebook_c notebook_u
      notebook_l True True)) = [] \<and>
    fst (lprog unwritable_run notebook_A notebook_b notebook_c notebook_u notebook_l
      True True) = Inr ([], - 1)) \<and>
   (Engine (Write ''mip.lp'')
       (Some (CplexError ''CPLEX Error  1422: Could not open file for writing.''))
      \<in> set (snd (mip unwritable_run notebook_A notebook_b notebook_c notebook_u notebook_l
           ''CCI'' True True)) \<and>
    files_written (snd (mip unwritable_run notebook_A notebook_b notebook_c notebook_u
      notebook_l ''CCI'' True True)) = [] \<and>
    fst (mip unwritable_run notebook_A notebook_b notebook_c notebook_u notebook_l ''CCI''
      True True) = Inr ([], - 1)) \<and>
   files_written (snd (lprog feasible_run notebook_A notebook_b notebook_c notebook_u notebook_l
     False False)) = [] \<and>
   files_written (snd (mip feasible_mip_run notebook_A notebook_b notebook_c notebook_u
     notebook_l ''CCI'' False False)) = []"
proof -
  note saved = model_file_written_when_write_returns [where eng = infeasible_run
      and A = notebook_A and b = infeasible_b and c = notebook_c and u = notebook_u
      and l = notebook_l and varType = "''CCI''" and saveOpt = True and quietOpt = True]
  note failed = model_file_written_when_write_returns [where eng = unwritable_run
      and A = notebook_A and b = notebook_b and c = notebook_c and u = notebook_u
      and l = notebook_l and varType = "''CCI''" and saveOpt = True and quietOpt = True
      and x = "CplexError ''CPLEX Error  1422: Could not open file for writing.''"]
  note unsaved_lp = model_file_written_when_write_returns [where eng = feasible_run
      and A = notebook_A and b = notebook_b and c = notebook_c and u = notebook_u
      and l = notebook_l and saveOpt = False and quietOpt = False,
      THEN conjunct1, THEN conjunct2, THEN conjunct2, THEN conjunct2, THEN conjunct2]
  note unsaved_mi = model_file_written_when_write_returns [where eng = feasible_mip_run
      and A = notebook_A and b = notebook_b and c = notebook_c and u = notebook_u
      and l = notebook_l and varType = "''CCI''" and saveOpt = False and quietOpt = False,
      THEN conjunct2, THEN conjunct2, THEN conjunct2, THEN conjunct2, THEN conjunct2]
  have s1: "Engine Solve None \<in> set (snd (lprog infeasible_run notebook_A infeasible_b notebook_c
     notebook_u notebook_l True True))"
    and s2: "Engine Solve None \<in> set (snd (mip infeasible_run notebook_A infeasible_b notebook_c
     notebook_u notebook_l ''CCI'' True True))"
    by (simp_all add: infeasible_lprog infeasible_mip)
  have w1: "Engine (Write ''lprog.lp'')
       (Some (CplexError ''CPLEX Error  1422: Could not open file for writing.''))
      \<in> set (snd (lprog unwritable_run notebook_A notebook_b notebook_c notebook_u notebook_l
           True True))"
    and w2: "Engine (Write ''mip.lp'')
       (Some (CplexError ''CPLEX Error  1422: Could not open file for writing.''))
      \<in> set (snd (mip unwritable_run notebook_A notebook_b notebook_c notebook_u notebook_l
           ''CCI'' True True))"
    by (simp_all add: unwritable_lprog unwritable_mip)
  have lp_saved: "fst (lprog infeasible_run notebook_A infeasible_b notebook_c notebook_u
      notebook_l True True) = Inr ([], - 1) \<and>
    files_written (snd (lprog infeasible_run notebook_A infeasible_b notebook_c notebook_u
      notebook_l True True)) = [''lprog.lp''] \<and>
    (\<exists>t1 ob t2. snd (lprog infeasible_run notebook_A infeasible_b notebook_c notebook_u
       notebook_l True True) = t1 @ Engine Solve None # Engine (Write ''lprog.lp'') ob # t2)"
    using saved [THEN conjunct1] s1 by (simp add: infeasible_lprog)
  have mi_saved: "fst (mip infeasible_run notebook_A infeasible_b notebook_c notebook_u
      notebook_l ''CCI'' True True) = Inr ([], - 1) \<and>
    files_written (snd (mip infeasible_run notebook_A infeasible_b notebook_c notebook_u
      notebook_l ''CCI'' True True)) = [''mip.lp''] \<and>
    (\<exists>t1 ob t2. snd (mip infeasible_run notebook_A infeasible_b notebook_c notebook_u
       notebook_l ''CCI'' True True) =
         t1 @ Engine Solve None # Engine (Write ''mip.lp'') ob # t2)"
    using saved [THEN conjunct2] s2 by (simp add: infeasible_mip)
  note lp_failed = failed [where f = "''lprog.lp''", THEN conjunct1, THEN conjunct2,
      THEN conjunct2, THEN conjunct2, THEN conjunct1, THEN mp, OF w1]
  note mi_failed = failed [where f = "''mip.lp''", THEN conjunct2, THEN conjunct2,
      THEN conjunct2, THEN conjunct2, THEN conjunct1, THEN mp, OF w2]
  have unsaved: "files_written (snd (lprog feasible_run notebook_A notebook_b notebook_c
      notebook_u notebook_l False False)) = []"
    "files_written (snd (mip feasible_mip_run notebook_A notebook_b notebook_c notebook_u
      notebook_l ''CCI'' False False)) = []"
    using unsaved_lp unsaved_mi by simp_all
  from s1 lp_saved s2 mi_saved w1 lp_failed w2 mi_failed unsaved show ?thesis
    by (simp only: is_CplexError.simps if_True simp_thms)
qed

section \<open>Mismatched dimensions\<close>

text \<open>
  C1, as the specification states it, fails. Neither facade checks a dimension, and there
  is no \<open>ShapeError\<close> in the notebooks. Two calls of \<^verbatim>\<open>lprog\<close> on the notebook's matrix, on the
  engine that checks the lengths it is given, show it. With an objective vector of two
  entries for three columns, the engine has been constructed and its objective sense set
  before anything fails, and what fails is the engine's \<^verbatim>\<open>variables.add\<close>, with the engine's
  own error. With an empty vector of lower bounds, which the engine accepts, nothing fails
  at all: the model is solved, the file is written and a solution is returned.
\<close>

theorem no_ShapeError_counterexample:
  "lprog checking_run notebook_A notebook_b [1, 2] notebook_u notebook_l True True =
     (Inl (CplexError ''inconsistent arguments''),
      [Engine Cplex_new None, Engine (Set_sense maximize) None,
       Engine (Variables_add [1, 2] [40, 10 ^ 20, 10 ^ 20] [0, 0, 0] None
         [''x0'', ''x1'', ''x2'']) (Some (CplexError ''inconsistent arguments''))]) \<and>
   lprog checking_run notebook_A notebook_b notebook_c notebook_u [] True True =
     (Inr ([40, 35 / 2, 85 / 2], 405 / 2),
      [Engine Cplex_new None, Engine (Set_sense maximize) None,
       Engine (Variables_add [1, 2, 3] [40, 10 ^ 20, 10 ^ 20] [] None
         [''x0'', ''x1'', ''x2'']) None,
       Engine (Linear_constraints_add [([0, 1, 2], [- 1, 1, 1]), ([0, 1, 2], [1, - 3, 1])]
         [''LL''] [20, 30]) None,
       Engine Set_log_stream_None None, Engine Set_error_stream_None None,
       Engine Set_warning_stream_None None, Engine Set_results_stream_None None,
       Engine Solve None, Engine (Write ''lprog.lp'') None, Print ''LP saved as lprog.lp'',
       Engine Get_values None, Engine Get_objective_value None])"
  by (simp add: short_objective_lprog no_lower_bounds_lprog)

text \<open>
  C1, amended. For every input with at least one row, mismatched or not, and on every
  engine, both facades do the following. They construct the engine first. When that call
  returns they set the objective sense to \<open>maximize\<close>; when that returns they call
  \<^verbatim>\<open>variables.add\<close> with \<open>c\<close>, \<open>u\<close>, \<open>l\<close> (and, in \<^verbatim>\<open>mip\<close>, \<open>varType\<close>) exactly as given and one
  name per column of the first row; when that returns they call \<^verbatim>\<open>linear_constraints.add\<close>
  with the sparse rows of \<open>A\<close>, one letter \<open>L\<close> per row, and \<open>b\<close> exactly as given. No other
  arguments are ever passed to these two methods. When \<^verbatim>\<open>linear_constraints.add\<close> has
  returned, and the last stream setter too if \<open>quietOpt\<close> is set, the engine is asked to
  solve, whatever the shapes were. An exception that reaches the caller is always one
  that a call of an engine method raised, so the facades raise no error of their own about
  shapes. If a call that builds the model raises, its exception reaches the caller, the
  engine is never asked to solve, and no file is written.
\<close>

theorem dimensions_are_left_to_the_engine:
  "(A \<noteq> [] \<longrightarrow>
     (\<exists>ob t. snd (lprog eng A b c u l saveOpt quietOpt) = Engine Cplex_new ob # t) \<and>
     (Engine Cplex_new None \<in> set (snd (lprog eng A b c u l saveOpt quietOpt)) \<longrightarrow>
        (\<exists>ob t. snd (lprog eng A b c u l saveOpt quietOpt) =
           Engine Cplex_new None # Engine (Set_sense maximize) ob # t)) \<and>
     (Engine (Set_sense maximize) None \<in> set (snd (lprog eng A b c u l saveOpt quietOpt)) \<longrightarrow>
        (\<exists>ob t. snd (lprog eng A b c u l saveOpt quietOpt) =
           Engine Cplex_new None # Engine (Set_sense maximize) None #
           Engine (Variables_add c u l None (colnames (length (hd A)))) ob # t)) \<and>
     (Engine (Variables_add c u l None (colnames (length (hd A)))) None
          \<in> set (snd (lprog eng A b c u l saveOpt quietOpt)) \<longrightarrow>
        (\<exists>ob t. snd (lprog eng A b c u l saveOpt quietOpt) =
           Engine Cplex_new None # Engine (Set_sense maximize) None #
           Engine (Variables_add c u l None (colnames (length (hd A)))) None #
           Engine (Linear_constraints_add (sparse_rows A (length A) (length (hd A)))
             [replicate (length A) (CHR ''L'')] b) ob # t)) \<and>
     (Engine (Linear_constraints_add rows senses rhs) None
          \<in> set (snd (lprog eng A b c u l saveOpt quietOpt)) \<and>
      (quietOpt \<longrightarrow> Engine Set_results_stream_None None
          \<in> set (snd (lprog eng A b c u l saveOpt quietOpt))) \<longrightarrow>
        (\<exists>ob. Engine Solve ob \<in> set (snd (lprog eng A b c u l saveOpt quietOpt)))) \<and>
     (Engine (Variables_add c' u' l' ty ns) ob'
          \<in> set (snd (lprog eng A b c u l saveOpt quietOpt)) \<longrightarrow>
        c' = c \<and> u' = u \<and> l' = l \<and> ty = None \<and> ns = colnames (length (hd A))) \<and>
     (Engine (Linear_constraints_add rows senses rhs) ob'
          \<in> set (snd (lprog eng A b c u l saveOpt quietOpt)) \<longrightarrow>
        rows = sparse_rows A (length A) (length (hd A)) \<and> rhs = b) \<and>
     (fst (lprog eng A b c u l saveOpt quietOpt) = Inl x \<longrightarrow>
        (\<exists>ca. Engine ca (Some x) \<in> set (snd (lprog eng A b c u l saveOpt quietOpt)))) \<and>
     (Engine ca' (Some x') \<in> set (snd (lprog eng A b c u l saveOpt quietOpt)) \<and>
      builds_model ca' \<longrightarrow>
        fst (lprog eng A b c u l saveOpt quietOpt) = Inl x' \<and>
        (\<forall>ob. Engine Solve ob \<notin> set (snd (lprog eng A b c u l saveOpt quietOpt))) \<and>
        files_written (snd (lprog eng A b c u l saveOpt quietOpt)) = [])) \<and>
   (A \<noteq> [] \<longrightarrow>
     (\<exists>ob t. snd (mip eng A b c u l varType saveOpt quietOpt) = Engine Cplex_new ob # t) \<and>
     (Engine Cplex_new None \<in> set (snd (mip eng A b c u l varType saveOpt quietOpt)) \<longrightarrow>
        (\<exists>ob t. snd (mip eng A b c u l varType saveOpt quietOpt) =
           Engine Cplex_new None # Engine (Set_sense maximize) ob # t)) \<and>
     (Engine (Set_sense maximize) None
          \<in> set (snd (mip eng A b c u l varType saveOpt quietOpt)) \<longrightarrow>
        (\<exists>ob t. snd (mip eng A b c u l varType saveOpt quietOpt) =
           Engine Cplex_new None # Engine (Set_sense maximize) None #
           Engine (Variables_add c u l (Some varType) (colnames (length (hd A)))) ob # t)) \<and>
     (Engine (Variables_add c u l (Some varType) (colnames (length (hd A)))) None
          \<in> set (snd (mip eng A b c u l varType saveOpt quietOpt)) \<longrightarrow>
        (\<exists>ob t. snd (mip eng A b c u l varType saveOpt quietOpt) =
           Engine Cplex_new None # Engine (Set_sense maximize) None #
           Engine (Variables_add c u l (Some varType) (colnames (length (hd A)))) None #
           Engine (Linear_constraints_add (sparse_rows A (length A) (length (hd A)))
             [replicate (length A) (CHR ''L'')] b) ob # t)) \<and>
     (Engine (Linear_constraints_add rows senses rhs) None
          \<in> set (snd (mip eng A b c u l varType saveOpt quietOpt)) \<and>
      (quietOpt \<longrightarrow> Engine Set_results_stream_None None
          \<in> set (snd (mip eng A b c u l varType saveOpt quietOpt))) \<longrightarrow>
        (\<exists>ob. Engine Solve ob \<in> set (snd (mip eng A b c u l varType saveOpt quietOpt)))) \<and>
     (Engine (Variables_add c' u' l' ty ns) ob'
          \<in> set (snd (mip eng A b c u l varType saveOpt quietOpt)) \<longrightarrow>
        c' = c \<and> u' = u \<and> l' = l \<and> ty = Some varType \<and> ns = colnames (length (hd A))) \<and>
     (Engine (Linear_constraints_add rows senses rhs) ob'
          \<in> set (snd (mip eng A b c u l varType saveOpt quietOpt)) \<longrightarrow>
        rows = sparse_rows A (length A) (length (hd A)) \<and> rhs = b) \<and>
     (fst (mip eng A b c u l varType saveOpt quietOpt) = Inl x \<longrightarrow>
        (\<exists>ca. Engine ca (Some x) \<in> set (snd (mip eng A b c u l varType saveOpt quietOpt)))) \<and>
     (Engine ca' (Some x') \<in> set (snd (mip eng A b c u l varType saveOpt quietOpt)) \<and>
      builds_model ca' \<longrightarrow>
        fst (mip eng A b c u l varType saveOpt quietOpt) = Inl x' \<and>
        (\<forall>ob. Engine Solve ob \<notin> set (snd (mip eng A b c u l varType saveOpt quietOpt))) \<and>
        files_written (snd (mip eng A b c u l varType saveOpt quietOpt)) = []))"
  unfolding lprog_facade mip_facade by (rule conjI [OF facade_no_validation facade_no_validation])

theorem dimensions_are_left_to_the_engine_witness:
  "notebook_A \<noteq> [] \<and>
   (Engine (Variables_add [1, 2] [40, 10 ^ 20, 10 ^ 20] [0, 0, 0] None [''x0'', ''x1'', ''x2''])
        (Some (CplexError ''inconsistent arguments''))
      \<in> set (snd (lprog checking_run notebook_A notebook_b [1, 2] notebook_u notebook_l
           True True)) \<and>
    fst (lprog checking_run notebook_A notebook_b [1, 2] notebook_u notebook_l True True) =
      Inl (CplexError ''inconsistent arguments'') \<and>
    (\<forall>ob. Engine Solve ob
       \<notin> set (snd (lprog checking_run notebook_A notebook_b [1, 2] notebook_u notebook_l
            True True))) \<and>
    files_written (snd (lprog checking_run notebook_A notebook_b [1, 2] notebook_u notebook_l
      True True)) = []) \<and>
   (Engine (Variables_add [1, 2] [40, 10 ^ 20, 10 ^ 20] [0, 0, 0] (Some ''CCI'')
        [''x0'', ''x1'', ''x2'']) (Some (CplexError ''inconsistent arguments''))
      \<in> set (snd (mip checking_run notebook_A notebook_b [1, 2] notebook_u notebook_l ''CCI''
           True True)) \<and>
    fst (mip checking_run notebook_A notebook_b [1, 2] notebook_u notebook_l ''CCI'' True True) =
      Inl (CplexError ''inconsistent arguments'') \<and>
    (\<forall>ob. Engine Solve ob
       \<notin> set (snd (mip checking_run notebook_A notebook_b [1, 2] notebook_u notebook_l ''CCI''
            True True))) \<and>
    files_written (snd (mip checking_run notebook_A notebook_b [1, 2] notebook_u notebook_l
      ''CCI'' True True)) = []) \<and>
   (Engine (Linear_constraints_add [([0, 1, 2], [- 1, 1, 1]), ([0, 1, 2], [1, - 3, 1])]
        [''LL''] [20, 30]) None
      \<in> set (snd (lprog checking_run notebook_A notebook_b notebook_c notebook_u [] True True)) \<and>
    Engine Set_results_stream_None None
      \<in> set (snd (lprog checking_run notebook_A notebook_b notebook_c notebook_u [] True True)) \<and>
    (\<exists>ob. Engine Solve ob
       \<in> set (snd (lprog checking_run notebook_A notebook_b notebook_c notebook_u [] True
            True))))"
proof -
  have rows: "notebook_A \<noteq> []"
    by (simp add: notebook_A_def)
  have lp: "Engine (Variables_add [1, 2] [40, 10 ^ 20, 10 ^ 20] [0, 0, 0] None
        [''x0'', ''x1'', ''x2'']) (Some (CplexError ''inconsistent arguments''))
      \<in> set (snd (lprog checking_run notebook_A notebook_b [1, 2] notebook_u notebook_l
           True True)) \<and>
    builds_model (Variables_add [1, 2] [40, 10 ^ 20, 10 ^ 20] [0, 0, 0] None
        [''x0'', ''x1'', ''x2''])"
    by (simp add: short_objective_lprog)
  have mi: "Engine (Variables_add [1, 2] [40, 10 ^ 20, 10 ^ 20] [0, 0, 0] (Some ''CCI'')
        [''x0'', ''x1'', ''x2'']) (Some (CplexError ''inconsistent arguments''))
      \<in> set (snd (mip checking_run notebook_A notebook_b [1, 2] notebook_u notebook_l ''CCI''
           True True)) \<and>
    builds_model (Variables_add [1, 2] [40, 10 ^ 20, 10 ^ 20] [0, 0, 0] (Some ''CCI'')
        [''x0'', ''x1'', ''x2''])"
    by (simp add: short_objective_mip)
  have acc: "Engine (Linear_constraints_add [([0, 1, 2], [- 1, 1, 1]), ([0, 1, 2], [1, - 3, 1])]
        [''LL''] [20, 30]) None
      \<in> set (snd (lprog checking_run notebook_A notebook_b notebook_c notebook_u [] True True)) \<and>
    (True \<longrightarrow> Engine Set_results_stream_None None
      \<in> set (snd (lprog checking_run notebook_A notebook_b notebook_c notebook_u [] True True)))"
    by (simp add: no_lower_bounds_lprog)
  note lp_fails = dimensions_are_left_to_the_engine [where eng = checking_run
      and A = notebook_A and b = notebook_b and c = "[1, 2]" and u = notebook_u
      and l = notebook_l and saveOpt = True and quietOpt = True,
      THEN conjunct1, THEN mp, OF rows, THEN conjunct2, THEN conjunct2, THEN conjunct2,
      THEN conjunct2, THEN conjunct2, THEN conjunct2, THEN conjunct2, THEN conjunct2,
      THEN mp, OF lp]
  note mi_fails = dimensions_are_left_to_the_engine [where eng = checking_run
      and A = notebook_A and b = notebook_b and c = "[1, 2]" and u = notebook_u
      and l = notebook_l and varType = "''CCI''" and saveOpt = True and quietOpt = True,
      THEN conjunct2, THEN mp, OF rows, THEN conjunct2, THEN conjunct2, THEN conjunct2,
      THEN conjunct2, THEN conjunct2, THEN conjunct2, THEN conjunct2, THEN conjunct2,
      THEN mp, OF mi]
  note lp_solves = dimensions_are_left_to_the_engine [where eng = checking_run
      and A = notebook_A and b = notebook_b and c = notebook_c and u = notebook_u
      and l = "[]" and saveOpt = True and quietOpt = True,
      THEN conjunct1, THEN mp, OF rows, THEN conjunct2, THEN conjunct2, THEN conjunct2,
      THEN conjunct2, THEN conjunct1, THEN mp, OF acc]
  from rows lp lp_fails mi mi_fails acc lp_solves show ?thesis by blast
qed

section \<open>The type tags\<close>

text \<open>
  C4, as the specification states it, fails. \<^verbatim>\<open>mip\<close> does not look at \<open>varType\<close>, and there
  is no \<open>TypeTagError\<close> in the notebook. With two type tags for the notebook's three
  columns, run on the engine that checks lengths, the engine has been constructed and its
  objective sense set before anything fails, and what fails is the engine's
  \<^verbatim>\<open>variables.add\<close>, with the engine's own error.
\<close>

theorem no_TypeTagError_counterexample:
  "mip checking_run notebook_A notebook_b notebook_c notebook_u notebook_l ''CC'' True True =
     (Inl (CplexError ''inconsistent arguments''),
      [Engine Cplex_new None, Engine (Set_sense maximize) None,
       Engine (Variables_add [1, 2, 3] [40, 10 ^ 20, 10 ^ 20] [0, 0, 0] (Some ''CC'')
         [''x0'', ''x1'', ''x2'']) (Some (CplexError ''inconsistent arguments''))])"
  by (rule short_types_mip)

text \<open>
  C4, amended. For every input with at least one row and on every engine, \<^verbatim>\<open>mip\<close> does the
  following. It constructs the engine first. When that call returns it sets the objective
  sense to \<open>maximize\<close>. When that returns it calls the engine's \<^verbatim>\<open>variables.add\<close>, passing
  \<open>varType\<close> unchanged, whatever its length and its characters, as the \<^verbatim>\<open>types\<close> argument;
  and \<^verbatim>\<open>variables.add\<close> is never called with any other type tags. An exception that
  reaches the caller is always one that a call of an engine method raised. If
  \<^verbatim>\<open>variables.add\<close> raises, the run is exactly the engine's construction, the setting of the
  objective sense and that call, and its exception reaches the caller.
\<close>

theorem type_tags_are_left_to_the_engine:
  "A \<noteq> [] \<longrightarrow>
     (\<exists>ob t. snd (mip eng A b c u l varType saveOpt quietOpt) = Engine Cplex_new ob # t) \<and>
     (Engine Cplex_new None \<in> set (snd (mip eng A b c u l varType saveOpt quietOpt)) \<longrightarrow>
        (\<exists>ob t. snd (mip eng A b c u l varType saveOpt quietOpt) =
           Engine Cplex_new None # Engine (Set_sense maximize) ob # t)) \<and>
     (Engine (Set_sense maximize) None
          \<in> set (snd (mip eng A b c u l varType saveOpt quietOpt)) \<longrightarrow>
        (\<exists>ob t. snd (mip eng A b c u l varType saveOpt quietOpt) =
           Engine Cplex_new None # Engine (Set_sense maximize) None #
           Engine (Variables_add c u l (Some varType) (colnames (length (hd A)))) ob # t)) \<and>
     (Engine (Variables_add c' u' l' ty ns) ob'
        \<in> set (snd (mip eng A b c u l varType saveOpt quietOpt)) \<longrightarrow> ty = Some varType) \<and>
     (fst (mip eng A b c u l varType saveOpt quietOpt) = Inl x \<longrightarrow>
        (\<exists>ca. Engine ca (Some x) \<in> set (snd (mip eng A b c u l varType saveOpt quietOpt)))) \<and>
     (Engine (Variables_add c' u' l' ty ns) (Some x')
        \<in> set (snd (mip eng A b c u l varType saveOpt quietOpt)) \<longrightarrow>
      mip eng A b c u l varType saveOpt quietOpt =
        (Inl x',
         [Engine Cplex_new None, Engine (Set_sense maximize) None,
          Engine (Variables_add c u l (Some varType) (colnames (length (hd A)))) (Some x')]))"
unfolding mip_facade
proof (intro impI conjI)
  assume "A \<noteq> []"
  then show "\<exists>ob t. snd (facade eng (Some varType) ''mip.lp'' A b c u l saveOpt quietOpt) =
      Engine Cplex_new ob # t"
    by (rule facade_first)
next
  assume "Engine Cplex_new None
    \<in> set (snd (facade eng (Some varType) ''mip.lp'' A b c u l saveOpt quietOpt))"
  with facade_build_order [of eng "Some varType" "''mip.lp''" A b c u l saveOpt quietOpt]
  show "\<exists>ob t. snd (facade eng (Some varType) ''mip.lp'' A b c u l saveOpt quietOpt) =
      Engine Cplex_new None # Engine (Set_sense maximize) ob # t"
    by blast
next
  assume "Engine (Set_sense maximize) None
    \<in> set (snd (facade eng (Some varType) ''mip.lp'' A b c u l saveOpt quietOpt))"
  with facade_build_order [of eng "Some varType" "''mip.lp''" A b c u l saveOpt quietOpt]
  show "\<exists>ob t. snd (facade eng (Some varType) ''mip.lp'' A b c u l saveOpt quietOpt) =
      Engine Cplex_new None # Engine (Set_sense maximize) None #
      Engine (Variables_add c u l (Some varType) (colnames (length (hd A)))) ob # t"
    by blast
next
  assume "Engine (Variables_add c' u' l' ty ns) ob'
    \<in> set (snd (facade eng (Some varType) ''mip.lp'' A b c u l saveOpt quietOpt))"
  from facade_calls [OF this] show "ty = Some varType" by simp
next
  assume "A \<noteq> []"
    and "fst (facade eng (Some varType) ''mip.lp'' A b c u l saveOpt quietOpt) = Inl x"
  then show "\<exists>ca. Engine ca (Some x)
      \<in> set (snd (facade eng (Some varType) ''mip.lp'' A b c u l saveOpt quietOpt))"
    by (rule facade_caused)
next
  assume ev: "Engine (Variables_add c' u' l' ty ns) (Some x')
    \<in> set (snd (facade eng (Some varType) ''mip.lp'' A b c u l saveOpt quietOpt))"
  then have run: "facade eng (Some varType) ''mip.lp'' A b c u l saveOpt quietOpt =
      (Inl x', snd (build eng (Some varType) A b c u l))"
    by (rule facade_build_failure) simp
  with ev have "Engine (Variables_add c' u' l' ty ns) (Some x')
    \<in> set (snd (build eng (Some varType) A b c u l))" by simp
  from build_variables_raised [OF this] run
  show "facade eng (Some varType) ''mip.lp'' A b c u l saveOpt quietOpt =
      (Inl x',
       [Engine Cplex_new None, Engine (Set_sense maximize) None,
        Engine (Variables_add c u l (Some varType) (colnames (length (hd A)))) (Some x')])"
    by simp
qed

theorem type_tags_are_left_to_the_engine_witness:
  "notebook_A \<noteq> [] \<and>
   Engine (Set_sense maximize) None
     \<in> set (snd (mip checking_run notebook_A notebook_b notebook_c notebook_u notebook_l ''CC''
          True True)) \<and>
   (\<exists>ob t. snd (mip checking_run notebook_A notebook_b notebook_c notebook_u notebook_l ''CC''
      True True) =
        Engine Cplex_new None # Engine (Set_sense maximize) None #
        Engine (Variables_add notebook_c notebook_u notebook_l (Some ''CC'')
          (colnames (length (hd notebook_A)))) ob # t) \<and>
   Engine (Variables_add [1, 2, 3] [40, 10 ^ 20, 10 ^ 20] [0, 0, 0] (Some ''CC'')
       [''x0'', ''x1'', ''x2'']) (Some (CplexError ''inconsistent arguments''))
     \<in> set (snd (mip checking_run notebook_A notebook_b notebook_c notebook_u notebook_l ''CC''
          True True)) \<and>
   mip checking_run notebook_A notebook_b notebook_c notebook_u notebook_l ''CC'' True True =
     (Inl (CplexError ''inconsistent arguments''),
      [Engine Cplex_new None, Engine (Set_sense maximize) None,
       Engine (Variables_add notebook_c notebook_u notebook_l (Some ''CC'')
         (colnames (length (hd notebook_A)))) (Some (CplexError ''inconsistent arguments''))])"
proof -
  have rows: "notebook_A \<noteq> []"
    by (simp add: notebook_A_def)
  have sense: "Engine (Set_sense maximize) None
     \<in> set (snd (mip checking_run notebook_A notebook_b notebook_c notebook_u notebook_l ''CC''
          True True))"
    by (simp add: short_types_mip)
  have ev: "Engine (Variables_add [1, 2, 3] [40, 10 ^ 20, 10 ^ 20] [0, 0, 0] (Some ''CC'')
       [''x0'', ''x1'', ''x2'']) (Some (CplexError ''inconsistent arguments''))
     \<in> set (snd (mip checking_run notebook_A notebook_b notebook_c notebook_u notebook_l ''CC''
          True True))"
    by (simp add: short_types_mip)
  note all = type_tags_are_left_to_the_engine [where eng = checking_run and A = notebook_A
      and b = notebook_b and c = notebook_c and u = notebook_u and l = notebook_l
      and varType = "''CC''" and saveOpt = True and quietOpt = True, THEN mp, OF rows]
  note passed = all [THEN conjunct2, THEN conjunct2, THEN conjunct1, THEN mp, OF sense]
  note fails = all [THEN conjunct2, THEN conjunct2, THEN conjunct2, THEN conjunct2,
      THEN conjunct2, THEN mp, OF ev]
  from rows sense passed ev fails show ?thesis by blast
qed

end
